theory Spec2Isabelle
  imports Complex_Main "HOL-Library.Word"
begin

section \<open>The textured-quad example \<^verbatim>\<open>gl_texture.cpp\<close> as a shallow embedding\<close>

text \<open>
  The program is a straight sequence of calls into OpenGL, GLFW, GLEW and the C++ stream
  library, followed by one loop. Its observable behaviour is the sequence of those calls
  with their arguments and answers, so every function of the source becomes a function that
  extends a \<^emph>\<open>trace\<close> of events. What the libraries answer is not decided by the program:
  it is a parameter, the record \<open>env\<close>, whose fields give the answer of a call from the
  number of events that happened before it and from the arguments of the call. The files on
  disk are a second parameter: a path cannot be opened, or it opens and delivers its bytes,
  or it opens and fails on the first read.

  An exception that no handler catches is a result of its own: the source has no
  \<open>try\<close> block, so it leaves every function up to \<open>main\<close> and the process is terminated.

  Storage allocation by the C++ library (\<open>std::string\<close>, \<open>std::vector\<close>) is taken to
  succeed, and the length of a log to be one that \<open>std::string\<close> accepts as a size: a
  length that a driver stores is not negative. A library that writes outside the buffer it
  was handed is not modelled.
\<close>

subsection \<open>Machine types\<close>

type_synonym c_int = "32 word"  \<comment> \<open>\<open>int\<close>; \<open>sint\<close> reads it as two's complement\<close>
type_synonym c_uint = "32 word"  \<comment> \<open>\<open>unsigned int\<close>; arithmetic wraps modulo \<open>2 ^ 32\<close>\<close>
type_synonym GLuint = "32 word"
type_synonym GLint = "32 word"
type_synonym GLsizei = "32 word"
type_synonym GLboolean = "8 word"
type_synonym GLfloat = real  \<comment> \<open>only the literals 0, 1, -1 and .5 occur, all exact\<close>
type_synonym GLFWwindow = nat  \<comment> \<open>an opaque, non-null \<open>GLFWwindow*\<close>\<close>

datatype GLenum =
    GL_VERTEX_SHADER | GL_FRAGMENT_SHADER
  | GL_COMPILE_STATUS | GL_LINK_STATUS | GL_INFO_LOG_LENGTH
  | GL_ARRAY_BUFFER | GL_STATIC_DRAW | GL_FLOAT
  | GL_TEXTURE_2D | GL_TEXTURE_MAG_FILTER | GL_TEXTURE_MIN_FILTER | GL_LINEAR
  | GL_RGB | GL_UNSIGNED_BYTE
  | GL_TRIANGLE_STRIP
  | GL_TEXTURE0_plus nat  \<comment> \<open>\<open>GL_TEXTURE0 + i\<close>\<close>

datatype GLbitfield_bit = GL_COLOR_BUFFER_BIT | GL_DEPTH_BUFFER_BIT

datatype glfw_hint =
    GLFW_SAMPLES | GLFW_CONTEXT_VERSION_MAJOR | GLFW_CONTEXT_VERSION_MINOR
  | GLFW_OPENGL_FORWARD_COMPAT | GLFW_OPENGL_PROFILE

datatype openmode = ios_in | ios_in_binary
  \<comment> \<open>\<open>std::ifstream(path)\<close> and \<open>std::ifstream(path, std::ios::binary)\<close>\<close>

definition GL_FALSE :: "32 word" where "GL_FALSE = 0"
definition GL_TRUE :: "32 word" where "GL_TRUE = 1"
definition GLFW_OPENGL_CORE_PROFILE :: c_int where "GLFW_OPENGL_CORE_PROFILE = 0x00032001"
definition EXIT_SUCCESS :: c_int where "EXIT_SUCCESS = 0"
definition EXIT_FAILURE :: c_int where "EXIT_FAILURE = 1"
definition sizeof_GLfloat :: nat where "sizeof_GLfloat = 4"

definition SIZE :: c_uint where "SIZE = 512"

subsection \<open>Events and the environment\<close>

text \<open>
  One constructor per library call of the source, with the arguments of the call and, last,
  what the call answered (its return value or what it stored through an out-pointer;
  \<open>None\<close> when it stored nothing). A pointer argument is recorded as the data it points to.
  The calls are grouped by the part of the program that makes them.
\<close>

datatype io_event =
    E_cout string  \<comment> \<open>\<open>std::cout << s << std::endl\<close>\<close>
  | E_cerr string  \<comment> \<open>\<open>std::cerr << s << std::endl\<close>\<close>
  | E_ifstream string openmode
  | E_read string nat nat  \<comment> \<open>path, characters asked for, characters stored\<close>
  | E_close string

datatype shader_event =
    E_glCreateShader GLenum GLuint
  | E_glShaderSource GLuint nat string
  | E_glCompileShader GLuint
  | E_glGetShaderiv GLuint GLenum "GLint option"
  | E_glGetShaderInfoLog GLuint GLsizei string
  | E_glCreateProgram GLuint
  | E_glAttachShader GLuint GLuint
  | E_glBindFragDataLocation GLuint nat string
  | E_glLinkProgram GLuint
  | E_glGetProgramiv GLuint GLenum "GLint option"
  | E_glGetProgramInfoLog GLuint GLsizei string
  | E_glDeleteShader GLuint
  | E_glUseProgram GLuint

datatype geometry_event =
    E_glGenVertexArrays nat GLuint
  | E_glBindVertexArray GLuint
  | E_glGenBuffers nat GLuint
  | E_glBindBuffer GLenum GLuint
  | E_glBufferData GLenum nat "GLfloat list" GLenum  \<comment> \<open>target, size in bytes, data, usage\<close>
  | E_glGetAttribLocation GLuint string GLint
  | E_glVertexAttribPointer GLuint nat GLenum "32 word" nat nat
  | E_glEnableVertexAttribArray GLuint

datatype texture_event =
    E_glGenTextures nat GLuint
  | E_glBindTexture GLenum GLuint
  | E_glTexParameteri GLenum GLenum GLenum
  | E_glTexImage2D GLenum nat GLenum GLsizei GLsizei nat GLenum GLenum string
  | E_glGetUniformLocation GLuint string GLint
  | E_glUniform1i GLint c_int
  | E_glActiveTexture GLenum

datatype frame_event =
    E_glClearColor GLfloat GLfloat GLfloat GLfloat
  | E_glClear "GLbitfield_bit list"  \<comment> \<open>the bits or-ed into the mask\<close>
  | E_glDrawArrays GLenum nat nat

datatype window_event =
    E_glfwInit c_int
  | E_glfwWindowHint glfw_hint c_int
  | E_glfwCreateWindow c_uint c_uint string "GLFWwindow option"
  | E_glfwMakeContextCurrent GLFWwindow
  | E_glfwTerminate
  | E_glewExperimental "32 word"  \<comment> \<open>the assignment \<open>glewExperimental = v\<close>\<close>
  | E_glewInit
  | E_glewIsSupported string GLboolean
  | E_glfwWindowShouldClose GLFWwindow c_int
  | E_glfwSwapBuffers GLFWwindow
  | E_glfwPollEvents

datatype event =
    IO io_event
  | Shader shader_event
  | Geometry geometry_event
  | Texture texture_event
  | Frame frame_event
  | Window window_event

type_synonym trace = "event list"

datatype file_state =
    Readable string  \<comment> \<open>the file opens and every read delivers its bytes\<close>
  | Read_error  \<comment> \<open>the path opens, and the first read fails: a directory, an I/O error\<close>

type_synonym files = "string \<Rightarrow> file_state option"
  \<comment> \<open>\<open>None\<close> for a path that cannot be opened: a missing file, no permission\<close>

datatype exception = ios_failure  \<comment> \<open>\<open>std::ios_base::failure\<close>\<close>

datatype outcome =
    Exit c_int  \<comment> \<open>\<open>main\<close> returns this exit code\<close>
  | Uncaught exception  \<comment> \<open>\<open>std::terminate\<close>: the process is aborted, \<open>main\<close> returns nothing\<close>

text \<open>
  The answers of the libraries. The first argument of every field is the number of events
  before the call, so an answer may change from one call to the next (a window that is
  closed after some frames, a second handle that differs from the first).
\<close>

record env =
  CreateShader_ret :: "nat \<Rightarrow> GLenum \<Rightarrow> GLuint"
  GetShaderiv_out :: "nat \<Rightarrow> GLuint \<Rightarrow> GLenum \<Rightarrow> GLint option"
  GetShaderInfoLog_out :: "nat \<Rightarrow> GLuint \<Rightarrow> GLsizei \<Rightarrow> string"
  CreateProgram_ret :: "nat \<Rightarrow> GLuint"
  GetProgramiv_out :: "nat \<Rightarrow> GLuint \<Rightarrow> GLenum \<Rightarrow> GLint option"
  GetProgramInfoLog_out :: "nat \<Rightarrow> GLuint \<Rightarrow> GLsizei \<Rightarrow> string"
  GenVertexArrays_out :: "nat \<Rightarrow> GLuint"
  GenBuffers_out :: "nat \<Rightarrow> GLuint"
  GetAttribLocation_ret :: "nat \<Rightarrow> GLuint \<Rightarrow> string \<Rightarrow> GLint"
  GenTextures_out :: "nat \<Rightarrow> GLuint"
  GetUniformLocation_ret :: "nat \<Rightarrow> GLuint \<Rightarrow> string \<Rightarrow> GLint"
  glfwInit_ret :: "nat \<Rightarrow> c_int"
  glfwCreateWindow_ret :: "nat \<Rightarrow> c_uint \<Rightarrow> c_uint \<Rightarrow> string \<Rightarrow> GLFWwindow option"
  glewIsSupported_ret :: "nat \<Rightarrow> string \<Rightarrow> GLboolean"
  glfwWindowShouldClose_ret :: "nat \<Rightarrow> GLFWwindow \<Rightarrow> c_int"

subsection \<open>The C++ library: streams, strings, vectors\<close>

definition cout :: "string \<Rightarrow> trace \<Rightarrow> trace" where
  "cout s t = t @ [IO (E_cout s)]"

definition cerr :: "string \<Rightarrow> trace \<Rightarrow> trace" where
  "cerr s t = t @ [IO (E_cerr s)]"

text \<open>
  An input stream is the state of the file behind it, or \<open>None\<close> when the file could not
  be opened (the stream is then in a failed state and every read extracts nothing).

  The two ways of reading that the source uses differ where the read itself fails. The
  stream buffer raises \<open>std::ios_base::failure\<close> when the read of the file fails.
  \<open>std::istreambuf_iterator\<close> reads the stream buffer directly, so the exception leaves
  the constructor of the string. \<open>istream::read\<close> catches it, sets the bad bit of the
  stream and returns, because the source never changes the exception mask of a stream.
\<close>

definition ifstream :: "files \<Rightarrow> string \<Rightarrow> openmode \<Rightarrow> trace \<Rightarrow> file_state option \<times> trace" where
  "ifstream fs path mode t = (fs path, t @ [IO (E_ifstream path mode)])"

definition istreambuf_string :: "file_state option \<Rightarrow> exception + string" where
  \<comment> \<open>\<open>std::string(std::istreambuf_iterator<char>(stream), std::istreambuf_iterator<char>())\<close>\<close>
  "istreambuf_string stream =
     (case stream of
        None \<Rightarrow> Inr []
      | Some (Readable s) \<Rightarrow> Inr s
      | Some Read_error \<Rightarrow> Inl ios_failure)"

definition c_str :: "string \<Rightarrow> string" where
  \<comment> \<open>what a reader of the null-terminated \<open>s.c_str()\<close> sees: the characters before the first NUL\<close>
  "c_str s = takeWhile (\<lambda>c. c \<noteq> CHR 0x00) s"

definition extracted :: "file_state option \<Rightarrow> nat \<Rightarrow> string" where
  \<comment> \<open>the characters \<open>istream::read(_, n)\<close> extracts: at most \<open>n\<close>, fewer at end of file,
      none from a stream that failed to open or whose read fails\<close>
  "extracted stream n =
     (case stream of
        None \<Rightarrow> []
      | Some (Readable s) \<Rightarrow> take n s
      | Some Read_error \<Rightarrow> [])"

definition store :: "'a list \<Rightarrow> 'a list \<Rightarrow> 'a list" where
  \<comment> \<open>writing \<open>xs\<close> from the start of the buffer \<open>buf\<close>; longer than \<open>buf\<close>, it overruns\<close>
  "store buf xs = xs @ drop (length xs) buf"

definition istream_read :: "string \<Rightarrow> file_state option \<Rightarrow> string \<Rightarrow> nat \<Rightarrow> trace \<Rightarrow> string \<times> trace" where
  \<comment> \<open>\<open>stream.read(buf.data(), n)\<close>, returning the buffer after the call\<close>
  "istream_read path stream buf n t =
     (store buf (extracted stream n), t @ [IO (E_read path n (length (extracted stream n)))])"

definition ifstream_close :: "string \<Rightarrow> trace \<Rightarrow> trace" where
  "ifstream_close path t = t @ [IO (E_close path)]"

definition unsigned_int :: "c_int \<Rightarrow> nat" where
  \<comment> \<open>the cast \<open>(unsigned int)i\<close>\<close>
  "unsigned_int i = unat i"

definition unsigned_long :: "c_int \<Rightarrow> nat" where
  \<comment> \<open>the cast \<open>(unsigned long)i\<close>, 64 bits wide: the sign is extended\<close>
  "unsigned_long i = unat (scast i :: 64 word)"

definition std_string :: "nat \<Rightarrow> char \<Rightarrow> string" where
  \<comment> \<open>\<open>std::string(n, c)\<close>, for a size \<open>n\<close> that the string accepts\<close>
  "std_string n c = replicate n c"

definition std_vector_char :: "nat \<Rightarrow> string" where
  \<comment> \<open>\<open>std::vector<char>(n)\<close>: \<open>n\<close> value-initialised elements, that is, zero bytes\<close>
  "std_vector_char n = replicate n (CHR 0x00)"

subsection \<open>The OpenGL calls of the source\<close>

definition glCreateShader :: "env \<Rightarrow> GLenum \<Rightarrow> trace \<Rightarrow> GLuint \<times> trace" where
  "glCreateShader gl ty t =
     (CreateShader_ret gl (length t) ty, t @ [Shader (E_glCreateShader ty (CreateShader_ret gl (length t) ty))])"

definition glShaderSource :: "GLuint \<Rightarrow> nat \<Rightarrow> string \<Rightarrow> trace \<Rightarrow> trace" where
  \<comment> \<open>the length array is \<open>NULL\<close>: the source is null-terminated\<close>
  "glShaderSource shader count src t = t @ [Shader (E_glShaderSource shader count (c_str src))]"

definition glCompileShader :: "GLuint \<Rightarrow> trace \<Rightarrow> trace" where
  "glCompileShader shader t = t @ [Shader (E_glCompileShader shader)]"

definition glGetShaderiv :: "env \<Rightarrow> GLuint \<Rightarrow> GLenum \<Rightarrow> GLint \<Rightarrow> trace \<Rightarrow> GLint \<times> trace" where
  \<comment> \<open>\<open>glGetShaderiv(shader, pname, &v)\<close>: \<open>v\<close> keeps its value when nothing is stored\<close>
  "glGetShaderiv gl shader pname v t =
     (case GetShaderiv_out gl (length t) shader pname of None \<Rightarrow> v | Some v' \<Rightarrow> v',
      t @ [Shader (E_glGetShaderiv shader pname (GetShaderiv_out gl (length t) shader pname))])"

definition glGetShaderInfoLog :: "env \<Rightarrow> GLuint \<Rightarrow> GLsizei \<Rightarrow> string \<Rightarrow> trace \<Rightarrow> string \<times> trace" where
  \<comment> \<open>\<open>glGetShaderInfoLog(shader, bufSize, NULL, &log[0])\<close>: the driver writes into the
      characters of \<open>infoLog\<close>, whose length stays what it was\<close>
  "glGetShaderInfoLog gl shader bufSize infoLog t =
     (take (length infoLog) (store infoLog (GetShaderInfoLog_out gl (length t) shader bufSize)),
      t @ [Shader (E_glGetShaderInfoLog shader bufSize (GetShaderInfoLog_out gl (length t) shader bufSize))])"

definition glCreateProgram :: "env \<Rightarrow> trace \<Rightarrow> GLuint \<times> trace" where
  "glCreateProgram gl t =
     (CreateProgram_ret gl (length t), t @ [Shader (E_glCreateProgram (CreateProgram_ret gl (length t)))])"

definition glAttachShader :: "GLuint \<Rightarrow> GLuint \<Rightarrow> trace \<Rightarrow> trace" where
  "glAttachShader program shader t = t @ [Shader (E_glAttachShader program shader)]"

definition glBindFragDataLocation :: "GLuint \<Rightarrow> nat \<Rightarrow> string \<Rightarrow> trace \<Rightarrow> trace" where
  "glBindFragDataLocation program color name t = t @ [Shader (E_glBindFragDataLocation program color name)]"

definition glLinkProgram :: "GLuint \<Rightarrow> trace \<Rightarrow> trace" where
  "glLinkProgram program t = t @ [Shader (E_glLinkProgram program)]"

definition glGetProgramiv :: "env \<Rightarrow> GLuint \<Rightarrow> GLenum \<Rightarrow> GLint \<Rightarrow> trace \<Rightarrow> GLint \<times> trace" where
  "glGetProgramiv gl program pname v t =
     (case GetProgramiv_out gl (length t) program pname of None \<Rightarrow> v | Some v' \<Rightarrow> v',
      t @ [Shader (E_glGetProgramiv program pname (GetProgramiv_out gl (length t) program pname))])"

definition glGetProgramInfoLog :: "env \<Rightarrow> GLuint \<Rightarrow> GLsizei \<Rightarrow> string \<Rightarrow> trace \<Rightarrow> string \<times> trace" where
  "glGetProgramInfoLog gl program bufSize infoLog t =
     (take (length infoLog) (store infoLog (GetProgramInfoLog_out gl (length t) program bufSize)),
      t @ [Shader (E_glGetProgramInfoLog program bufSize (GetProgramInfoLog_out gl (length t) program bufSize))])"

definition glDeleteShader :: "GLuint \<Rightarrow> trace \<Rightarrow> trace" where
  "glDeleteShader shader t = t @ [Shader (E_glDeleteShader shader)]"

subsection \<open>\<open>ShaderProgram\<close>\<close>

text \<open>
  The three blocks of the source that follow the comments \<open>// Check vertex shader log\<close>,
  \<open>// Check fragment shader log\<close> and \<open>// Check program log\<close>. Each reads and writes the
  locals \<open>result\<close> and \<open>info_length\<close> of \<open>ShaderProgram\<close>, which are passed in and
  returned. The vertex block casts the length with \<open>(unsigned int)\<close>, the other two with
  \<open>(unsigned long)\<close>.
\<close>

definition check_vertex_shader_log ::
    "env \<Rightarrow> GLuint \<Rightarrow> GLint \<Rightarrow> GLint \<Rightarrow> trace \<Rightarrow> GLint \<times> GLint \<times> trace" where
  "check_vertex_shader_log gl vertex_shader_id result info_length t =
    (let (result, t1) = glGetShaderiv gl vertex_shader_id GL_COMPILE_STATUS result t
     in if result = GL_FALSE then
          let (info_length, t2) = glGetShaderiv gl vertex_shader_id GL_INFO_LOG_LENGTH info_length t1;
              vertex_shader_log = std_string (unsigned_int info_length) CHR '' '';
              (vertex_shader_log, t3) =
                glGetShaderInfoLog gl vertex_shader_id info_length vertex_shader_log t2;
              t4 = cout vertex_shader_log t3
          in (result, info_length, t4)
        else (result, info_length, t1))"

definition check_fragment_shader_log ::
    "env \<Rightarrow> GLuint \<Rightarrow> GLint \<Rightarrow> GLint \<Rightarrow> trace \<Rightarrow> GLint \<times> GLint \<times> trace" where
  "check_fragment_shader_log gl fragment_shader_id result info_length t =
    (let (result, t1) = glGetShaderiv gl fragment_shader_id GL_COMPILE_STATUS result t
     in if result = GL_FALSE then
          let (info_length, t2) = glGetShaderiv gl fragment_shader_id GL_INFO_LOG_LENGTH info_length t1;
              fragment_shader_log = std_string (unsigned_long info_length) CHR '' '';
              (fragment_shader_log, t3) =
                glGetShaderInfoLog gl fragment_shader_id info_length fragment_shader_log t2;
              t4 = cout fragment_shader_log t3
          in (result, info_length, t4)
        else (result, info_length, t1))"

definition check_program_log ::
    "env \<Rightarrow> GLuint \<Rightarrow> GLint \<Rightarrow> GLint \<Rightarrow> trace \<Rightarrow> GLint \<times> GLint \<times> trace" where
  "check_program_log gl program_id result info_length t =
    (let (result, t1) = glGetProgramiv gl program_id GL_LINK_STATUS result t
     in if result = GL_FALSE then
          let (info_length, t2) = glGetProgramiv gl program_id GL_INFO_LOG_LENGTH info_length t1;
              program_log = std_string (unsigned_long info_length) CHR '' '';
              (program_log, t3) = glGetProgramInfoLog gl program_id info_length program_log t2;
              t4 = cout program_log t3
          in (result, info_length, t4)
        else (result, info_length, t1))"

text \<open>
  \<open>ShaderProgram\<close> returns the program handle, or is left by the exception of a read that
  failed: \<open>Inl\<close> with the events up to that point. Nothing after the failing line runs.
\<close>

definition ShaderProgram ::
    "env \<Rightarrow> files \<Rightarrow> string \<Rightarrow> string \<Rightarrow> trace \<Rightarrow> (exception \<times> trace) + (GLuint \<times> trace)" where
  "ShaderProgram gl fs vertex_shader_file fragment_shader_file t0 =
    (let (vertex_shader_id, t1) = glCreateShader gl GL_VERTEX_SHADER t0;
         (fragment_shader_id, t2) = glCreateShader gl GL_FRAGMENT_SHADER t1;
         result = GL_FALSE;
         info_length = 0;
         (vertex_shader_stream, t3) = ifstream fs vertex_shader_file ios_in t2
     in (case istreambuf_string vertex_shader_stream of
           Inl thrown \<Rightarrow> Inl (thrown, t3)
         | Inr vertex_shader_code \<Rightarrow>
    (let (fragment_shader_stream, t4) = ifstream fs fragment_shader_file ios_in t3
     in (case istreambuf_string fragment_shader_stream of
           Inl thrown \<Rightarrow> Inl (thrown, t4)
         | Inr fragment_shader_code \<Rightarrow>
    (let t5 = cout ''Compiling Vertex Shader ...'' t4;
         t6 = glShaderSource vertex_shader_id 1 vertex_shader_code t5;
         t7 = glCompileShader vertex_shader_id t6;
         (result, info_length, t8) = check_vertex_shader_log gl vertex_shader_id result info_length t7;
         t9 = cout ''Compiling Fragment Shader ...'' t8;
         t10 = glShaderSource fragment_shader_id 1 fragment_shader_code t9;
         t11 = glCompileShader fragment_shader_id t10;
         (result, info_length, t12) =
           check_fragment_shader_log gl fragment_shader_id result info_length t11;
         t13 = cout ''Linking Shader Program ...'' t12;
         (program_id, t14) = glCreateProgram gl t13;
         t15 = glAttachShader program_id vertex_shader_id t14;
         t16 = glAttachShader program_id fragment_shader_id t15;
         t17 = glBindFragDataLocation program_id 0 ''FragmentColor'' t16;
         t18 = glLinkProgram program_id t17;
         (result, info_length, t19) = check_program_log gl program_id result info_length t18;
         t20 = glDeleteShader vertex_shader_id t19;
         t21 = glDeleteShader fragment_shader_id t20
     in Inr (program_id, t21))))))"

subsection \<open>\<open>InitializeGeometry\<close>\<close>

definition glGenVertexArrays :: "env \<Rightarrow> nat \<Rightarrow> trace \<Rightarrow> GLuint \<times> trace" where
  \<comment> \<open>\<open>glGenVertexArrays(n, &name)\<close> with \<open>n = 1\<close>: one name is stored\<close>
  "glGenVertexArrays gl n t =
     (GenVertexArrays_out gl (length t), t @ [Geometry (E_glGenVertexArrays n (GenVertexArrays_out gl (length t)))])"

definition glBindVertexArray :: "GLuint \<Rightarrow> trace \<Rightarrow> trace" where
  "glBindVertexArray array t = t @ [Geometry (E_glBindVertexArray array)]"

definition glGenBuffers :: "env \<Rightarrow> nat \<Rightarrow> trace \<Rightarrow> GLuint \<times> trace" where
  "glGenBuffers gl n t =
     (GenBuffers_out gl (length t), t @ [Geometry (E_glGenBuffers n (GenBuffers_out gl (length t)))])"

definition glBindBuffer :: "GLenum \<Rightarrow> GLuint \<Rightarrow> trace \<Rightarrow> trace" where
  "glBindBuffer target buffer t = t @ [Geometry (E_glBindBuffer target buffer)]"

definition glBufferData :: "GLenum \<Rightarrow> nat \<Rightarrow> GLfloat list \<Rightarrow> GLenum \<Rightarrow> trace \<Rightarrow> trace" where
  "glBufferData target size_bytes data usage t = t @ [Geometry (E_glBufferData target size_bytes data usage)]"

definition glGetAttribLocation :: "env \<Rightarrow> GLuint \<Rightarrow> string \<Rightarrow> trace \<Rightarrow> GLint \<times> trace" where
  "glGetAttribLocation gl program name t =
     (GetAttribLocation_ret gl (length t) program name,
      t @ [Geometry (E_glGetAttribLocation program name (GetAttribLocation_ret gl (length t) program name))])"

definition glVertexAttribPointer ::
    "GLuint \<Rightarrow> nat \<Rightarrow> GLenum \<Rightarrow> 32 word \<Rightarrow> nat \<Rightarrow> nat \<Rightarrow> trace \<Rightarrow> trace" where
  "glVertexAttribPointer index components type normalized stride pointer t =
     t @ [Geometry (E_glVertexAttribPointer index components type normalized stride pointer)]"

definition glEnableVertexAttribArray :: "GLuint \<Rightarrow> trace \<Rightarrow> trace" where
  "glEnableVertexAttribArray index t = t @ [Geometry (E_glEnableVertexAttribArray index)]"

text \<open>
  \<open>position_attrib\<close> and \<open>texcoord_attrib\<close> are \<open>GLint\<close>; passed as the \<open>GLuint\<close> index
  of \<open>glVertexAttribPointer\<close> and \<open>glEnableVertexAttribArray\<close> they keep their 32 bits,
  so \<open>-1\<close> arrives as \<open>0xFFFFFFFF\<close>.
\<close>

definition InitializeGeometry :: "env \<Rightarrow> GLuint \<Rightarrow> trace \<Rightarrow> trace" where
  "InitializeGeometry gl program_id t0 =
    (let (vao, t1) = glGenVertexArrays gl 1 t0;
         t2 = glBindVertexArray vao t1;
         vertex_buffer = [1, 1,
                          -1, 1,
                          1, -1,
                          -1, -1];
         (vbo, t3) = glGenBuffers gl 1 t2;
         t4 = glBindBuffer GL_ARRAY_BUFFER vbo t3;
         t5 = glBufferData GL_ARRAY_BUFFER (length vertex_buffer * sizeof_GLfloat) vertex_buffer
                GL_STATIC_DRAW t4;
         (position_attrib, t6) = glGetAttribLocation gl program_id ''Position'' t5;
         t7 = glVertexAttribPointer position_attrib 2 GL_FLOAT GL_FALSE 0 0 t6;
         t8 = glEnableVertexAttribArray position_attrib t7;
         texcoord_buffer = [1, 0,
                            0, 0,
                            1, 1,
                            0, 1];
         (tbo, t9) = glGenBuffers gl 1 t8;
         t10 = glBindBuffer GL_ARRAY_BUFFER tbo t9;
         t11 = glBufferData GL_ARRAY_BUFFER (length texcoord_buffer * sizeof_GLfloat) texcoord_buffer
                 GL_STATIC_DRAW t10;
         (texcoord_attrib, t12) = glGetAttribLocation gl program_id ''TexCoord'' t11;
         t13 = glVertexAttribPointer texcoord_attrib 2 GL_FLOAT GL_FALSE 0 0 t12;
         t14 = glEnableVertexAttribArray texcoord_attrib t13
     in t14)"

subsection \<open>\<open>LoadImage\<close>\<close>

definition glGenTextures :: "env \<Rightarrow> nat \<Rightarrow> trace \<Rightarrow> GLuint \<times> trace" where
  "glGenTextures gl n t =
     (GenTextures_out gl (length t), t @ [Texture (E_glGenTextures n (GenTextures_out gl (length t)))])"

definition glBindTexture :: "GLenum \<Rightarrow> GLuint \<Rightarrow> trace \<Rightarrow> trace" where
  "glBindTexture target texture t = t @ [Texture (E_glBindTexture target texture)]"

definition glTexParameteri :: "GLenum \<Rightarrow> GLenum \<Rightarrow> GLenum \<Rightarrow> trace \<Rightarrow> trace" where
  "glTexParameteri target pname param t = t @ [Texture (E_glTexParameteri target pname param)]"

definition glTexImage2D ::
    "GLenum \<Rightarrow> nat \<Rightarrow> GLenum \<Rightarrow> GLsizei \<Rightarrow> GLsizei \<Rightarrow> nat \<Rightarrow> GLenum \<Rightarrow> GLenum \<Rightarrow> string \<Rightarrow> trace \<Rightarrow> trace" where
  \<comment> \<open>the last argument of the call is \<open>buffer.data()\<close>, an address without a length: the event
      holds the bytes of the buffer behind it. The library takes the bytes of a \<open>width\<close> by
      \<open>height\<close> image from that address, whatever the size of the buffer is\<close>
  "glTexImage2D target level internalformat width height border format type pixels t =
     t @ [Texture (E_glTexImage2D target level internalformat width height border format type pixels)]"

text \<open>
  \<open>width\<close> and \<open>height\<close> are \<open>unsigned int\<close>, so \<open>width*height*3\<close> is computed modulo
  \<open>2 ^ 32\<close> before it becomes the size of the vector.
\<close>

definition LoadImage :: "env \<Rightarrow> files \<Rightarrow> string \<Rightarrow> c_uint \<Rightarrow> c_uint \<Rightarrow> trace \<Rightarrow> GLuint \<times> trace" where
  "LoadImage gl fs image_file width height t0 =
    (let (texture_id, t1) = glGenTextures gl 1 t0;
         t2 = glBindTexture GL_TEXTURE_2D texture_id t1;
         t3 = glTexParameteri GL_TEXTURE_2D GL_TEXTURE_MAG_FILTER GL_LINEAR t2;
         t4 = glTexParameteri GL_TEXTURE_2D GL_TEXTURE_MIN_FILTER GL_LINEAR t3;
         (image_stream, t5) = ifstream fs image_file ios_in_binary t4;
         buffer = std_vector_char (unat (width * height * 3));
         (buffer, t6) = istream_read image_file image_stream buffer (length buffer) t5;
         t7 = ifstream_close image_file t6;
         t8 = glTexImage2D GL_TEXTURE_2D 0 GL_RGB width height 0 GL_RGB GL_UNSIGNED_BYTE buffer t7
     in (texture_id, t8))"

subsection \<open>\<open>main\<close>\<close>

definition glUseProgram :: "GLuint \<Rightarrow> trace \<Rightarrow> trace" where
  "glUseProgram program t = t @ [Shader (E_glUseProgram program)]"

definition glGetUniformLocation :: "env \<Rightarrow> GLuint \<Rightarrow> string \<Rightarrow> trace \<Rightarrow> GLint \<times> trace" where
  "glGetUniformLocation gl program name t =
     (GetUniformLocation_ret gl (length t) program name,
      t @ [Texture (E_glGetUniformLocation program name (GetUniformLocation_ret gl (length t) program name))])"

definition glUniform1i :: "GLint \<Rightarrow> c_int \<Rightarrow> trace \<Rightarrow> trace" where
  "glUniform1i location v t = t @ [Texture (E_glUniform1i location v)]"

definition glActiveTexture :: "GLenum \<Rightarrow> trace \<Rightarrow> trace" where
  "glActiveTexture texture t = t @ [Texture (E_glActiveTexture texture)]"

definition glClearColor :: "GLfloat \<Rightarrow> GLfloat \<Rightarrow> GLfloat \<Rightarrow> GLfloat \<Rightarrow> trace \<Rightarrow> trace" where
  "glClearColor r g b a t = t @ [Frame (E_glClearColor r g b a)]"

definition glClear :: "GLbitfield_bit list \<Rightarrow> trace \<Rightarrow> trace" where
  "glClear bits t = t @ [Frame (E_glClear bits)]"

definition glDrawArrays :: "GLenum \<Rightarrow> nat \<Rightarrow> nat \<Rightarrow> trace \<Rightarrow> trace" where
  "glDrawArrays mode first count t = t @ [Frame (E_glDrawArrays mode first count)]"

definition glfwInit :: "env \<Rightarrow> trace \<Rightarrow> c_int \<times> trace" where
  "glfwInit gl t = (glfwInit_ret gl (length t), t @ [Window (E_glfwInit (glfwInit_ret gl (length t)))])"

definition glfwWindowHint :: "glfw_hint \<Rightarrow> c_int \<Rightarrow> trace \<Rightarrow> trace" where
  "glfwWindowHint hint v t = t @ [Window (E_glfwWindowHint hint v)]"

definition glfwCreateWindow :: "env \<Rightarrow> c_uint \<Rightarrow> c_uint \<Rightarrow> string \<Rightarrow> trace \<Rightarrow> GLFWwindow option \<times> trace" where
  \<comment> \<open>\<open>glfwCreateWindow(width, height, title, NULL, NULL)\<close>; \<open>None\<close> is the \<open>NULL\<close> window\<close>
  "glfwCreateWindow gl width height title t =
     (glfwCreateWindow_ret gl (length t) width height title,
      t @ [Window (E_glfwCreateWindow width height title (glfwCreateWindow_ret gl (length t) width height title))])"

definition glfwMakeContextCurrent :: "GLFWwindow \<Rightarrow> trace \<Rightarrow> trace" where
  "glfwMakeContextCurrent window t = t @ [Window (E_glfwMakeContextCurrent window)]"

definition glfwTerminate :: "trace \<Rightarrow> trace" where
  "glfwTerminate t = t @ [Window E_glfwTerminate]"

definition set_glewExperimental :: "32 word \<Rightarrow> trace \<Rightarrow> trace" where
  "set_glewExperimental v t = t @ [Window (E_glewExperimental v)]"

definition glewInit :: "trace \<Rightarrow> trace" where
  \<comment> \<open>the value \<open>glewInit()\<close> returns is dropped by the source\<close>
  "glewInit t = t @ [Window E_glewInit]"

definition glewIsSupported :: "env \<Rightarrow> string \<Rightarrow> trace \<Rightarrow> GLboolean \<times> trace" where
  "glewIsSupported gl name t =
     (glewIsSupported_ret gl (length t) name,
      t @ [Window (E_glewIsSupported name (glewIsSupported_ret gl (length t) name))])"

definition glfwWindowShouldClose :: "env \<Rightarrow> GLFWwindow \<Rightarrow> trace \<Rightarrow> c_int \<times> trace" where
  "glfwWindowShouldClose gl window t =
     (glfwWindowShouldClose_ret gl (length t) window,
      t @ [Window (E_glfwWindowShouldClose window (glfwWindowShouldClose_ret gl (length t) window))])"

definition glfwSwapBuffers :: "GLFWwindow \<Rightarrow> trace \<Rightarrow> trace" where
  "glfwSwapBuffers window t = t @ [Window (E_glfwSwapBuffers window)]"

definition glfwPollEvents :: "trace \<Rightarrow> trace" where
  "glfwPollEvents t = t @ [Window E_glfwPollEvents]"

text \<open>
  The body of the \<open>while\<close> loop of \<open>main\<close>, and the loop. The loop has no bound: where the
  window never reports a close request it does not return, which is the value \<open>None\<close>.
\<close>

definition loop_body :: "GLFWwindow \<Rightarrow> trace \<Rightarrow> trace" where
  "loop_body window t =
    (let t1 = glClearColor 0.5 0.5 0.5 0 t;
         t2 = glClear [GL_COLOR_BUFFER_BIT, GL_DEPTH_BUFFER_BIT] t1;
         t3 = glDrawArrays GL_TRIANGLE_STRIP 0 4 t2;
         t4 = glfwSwapBuffers window t3;
         t5 = glfwPollEvents t4
     in t5)"

partial_function (option) main_loop :: "env \<Rightarrow> GLFWwindow \<Rightarrow> trace \<Rightarrow> trace option" where
  "main_loop gl window t =
    (case glfwWindowShouldClose gl window t of
       (should_close, t1) \<Rightarrow>
         if should_close \<noteq> 0 then Some t1
         else main_loop gl window (loop_body window t1))"

text \<open>
  \<open>main\<close> returns an exit code, or is left by the exception that left \<open>ShaderProgram\<close>;
  \<open>None\<close> is the run in which the loop never ends.
\<close>

definition main :: "env \<Rightarrow> files \<Rightarrow> (outcome \<times> trace) option" where
  "main gl fs =
    (let (initialised, t1) = glfwInit gl [] in
     if initialised = 0 then
       Some (Exit EXIT_FAILURE, cerr ''Failed to initialize GLFW!'' t1)
     else
       let t2 = glfwWindowHint GLFW_SAMPLES 4 t1;
           t3 = glfwWindowHint GLFW_CONTEXT_VERSION_MAJOR 3 t2;
           t4 = glfwWindowHint GLFW_CONTEXT_VERSION_MINOR 3 t3;
           t5 = glfwWindowHint GLFW_OPENGL_FORWARD_COMPAT GL_TRUE t4;
           t6 = glfwWindowHint GLFW_OPENGL_PROFILE GLFW_OPENGL_CORE_PROFILE t5;
           (window, t7) = glfwCreateWindow gl SIZE SIZE ''OpenGL'' t6
       in case window of
            None \<Rightarrow>
              Some (Exit EXIT_FAILURE,
                glfwTerminate
                  (cerr ''Failed to open GLFW window, your graphics card is probably only capable of OpenGL 2.1'' t7))
          | Some window \<Rightarrow>
              let t8 = glfwMakeContextCurrent window t7;
                  t9 = set_glewExperimental GL_TRUE t8;
                  t10 = glewInit t9;
                  (supported, t11) = glewIsSupported gl ''GL_VERSION_3_3'' t10
              in if supported = 0 then
                   Some (Exit EXIT_FAILURE,
                     glfwTerminate (cerr ''Failed to initialize GLEW with OpenGL 3.3!'' t11))
                 else
                   (case ShaderProgram gl fs ''gl_texture.vert'' ''gl_texture.frag'' t11 of
                      Inl (thrown, t12) \<Rightarrow> Some (Uncaught thrown, t12)
                    | Inr (program_id, t12) \<Rightarrow>
                   let t13 = glUseProgram program_id t12;
                       t14 = InitializeGeometry gl program_id t13;
                       (texture_id, t15) = LoadImage gl fs ''lena.rgb'' SIZE SIZE t14;
                       (texture_attrib, t16) = glGetUniformLocation gl program_id ''Texture'' t15;
                       t17 = glUniform1i texture_attrib 0 t16;
                       t18 = glActiveTexture (GL_TEXTURE0_plus 0) t17;
                       t19 = glBindTexture GL_TEXTURE_2D texture_id t18
                   in (case main_loop gl window t19 of
                         None \<Rightarrow> None
                       | Some t20 \<Rightarrow> Some (Exit EXIT_SUCCESS, glfwTerminate t20))))"

section \<open>What the traces are measured against\<close>

subsection \<open>Reading a trace\<close>

definition shader_created :: "event \<Rightarrow> GLuint list" where
  "shader_created e = (case e of Shader (E_glCreateShader ty h) \<Rightarrow> [h] | _ \<Rightarrow> [])"

definition shader_deleted :: "event \<Rightarrow> GLuint list" where
  "shader_deleted e = (case e of Shader (E_glDeleteShader h) \<Rightarrow> [h] | _ \<Rightarrow> [])"

definition program_created :: "event \<Rightarrow> GLuint list" where
  "program_created e = (case e of Shader (E_glCreateProgram h) \<Rightarrow> [h] | _ \<Rightarrow> [])"

definition shader_source :: "event \<Rightarrow> (GLuint \<times> string) list" where
  "shader_source e = (case e of Shader (E_glShaderSource h n src) \<Rightarrow> [(h, src)] | _ \<Rightarrow> [])"

definition buffer_data :: "event \<Rightarrow> (nat \<times> GLfloat list) list" where
  "buffer_data e = (case e of Geometry (E_glBufferData target n xs usage) \<Rightarrow> [(n, xs)] | _ \<Rightarrow> [])"

definition read_request :: "event \<Rightarrow> (nat \<times> nat) list" where
  "read_request e = (case e of IO (E_read path n k) \<Rightarrow> [(n, k)] | _ \<Rightarrow> [])"

definition uploaded_pixels :: "event \<Rightarrow> string list" where
  "uploaded_pixels e = (case e of Texture (E_glTexImage2D target level internalformat w h border format type pixels) \<Rightarrow> [pixels] | _ \<Rightarrow> [])"

definition diagnostic :: "event \<Rightarrow> string list" where
  "diagnostic e = (case e of IO (E_cout s) \<Rightarrow> [s] | IO (E_cerr s) \<Rightarrow> [s] | _ \<Rightarrow> [])"

definition close_reported :: "event \<Rightarrow> bool" where
  "close_reported e = (case e of Window (E_glfwWindowShouldClose w c) \<Rightarrow> c \<noteq> 0 | _ \<Rightarrow> False)"

definition shaders_created :: "trace \<Rightarrow> GLuint list" where
  "shaders_created t = concat (map shader_created t)"

definition shaders_deleted :: "trace \<Rightarrow> GLuint list" where
  "shaders_deleted t = concat (map shader_deleted t)"

definition programs_created :: "trace \<Rightarrow> GLuint list" where
  "programs_created t = concat (map program_created t)"

definition shader_sources :: "trace \<Rightarrow> (GLuint \<times> string) list" where
  "shader_sources t = concat (map shader_source t)"

definition diagnostics :: "trace \<Rightarrow> string list" where
  \<comment> \<open>everything written to \<open>std::cout\<close> and \<open>std::cerr\<close>, in order\<close>
  "diagnostics t = concat (map diagnostic t)"

definition buffer_uploads :: "trace \<Rightarrow> (nat \<times> GLfloat list) list" where
  "buffer_uploads t = concat (map buffer_data t)"

definition read_requests :: "trace \<Rightarrow> (nat \<times> nat) list" where
  "read_requests t = concat (map read_request t)"

definition texture_uploads :: "trace \<Rightarrow> string list" where
  "texture_uploads t = concat (map uploaded_pixels t)"

definition closure_reached :: "trace \<Rightarrow> bool" where
  \<comment> \<open>some \<open>glfwWindowShouldClose\<close> of the trace answered non-zero\<close>
  "closure_reached t = list_ex close_reported t"

subsection \<open>The log-and-continue policy\<close>

definition stored :: "'a \<Rightarrow> 'a option \<Rightarrow> 'a" where
  \<comment> \<open>a variable after a call that may store through a pointer to it\<close>
  "stored old out = (case out of None \<Rightarrow> old | Some v \<Rightarrow> v)"

definition when_failed :: "GLint \<Rightarrow> event list \<Rightarrow> event list" where
  \<comment> \<open>the events of a block guarded by \<open>result == GL_FALSE\<close>\<close>
  "when_failed result evs = (if result = GL_FALSE then evs else [])"

definition info_log_text :: "nat \<Rightarrow> string \<Rightarrow> string" where
  \<comment> \<open>a string of \<open>n\<close> blanks after the driver wrote \<open>written\<close> at its start\<close>
  "info_log_text n written = take n (written @ replicate (n - length written) CHR '' '')"

definition attrib_pointer :: "event \<Rightarrow> (GLuint \<times> nat) list" where
  "attrib_pointer e =
     (case e of Geometry (E_glVertexAttribPointer index components type normalized stride pointer) \<Rightarrow>
        [(index, components)] | _ \<Rightarrow> [])"

definition draw_call :: "event \<Rightarrow> (GLenum \<times> nat \<times> nat) list" where
  "draw_call e = (case e of Frame (E_glDrawArrays mode first count) \<Rightarrow> [(mode, first, count)] | _ \<Rightarrow> [])"

definition attrib_pointers :: "trace \<Rightarrow> (GLuint \<times> nat) list" where
  "attrib_pointers t = concat (map attrib_pointer t)"

definition draw_calls :: "trace \<Rightarrow> (GLenum \<times> nat \<times> nat) list" where
  "draw_calls t = concat (map draw_call t)"

subsection \<open>The quad\<close>

text \<open>
  A buffer of floats read two components at a time, the triangles of a strip (each vertex
  after the first two makes a triangle with the two before it), and the test whether a
  point lies in a triangle or on its border: it is on the same side of the three edges.
\<close>

fun vertices2 :: "GLfloat list \<Rightarrow> (GLfloat \<times> GLfloat) list" where
  "vertices2 (x # y # rest) = (x, y) # vertices2 rest"
| "vertices2 rest = []"

fun strip_triangles :: "'a list \<Rightarrow> ('a \<times> 'a \<times> 'a) list" where
  "strip_triangles (a # b # c # rest) = (a, b, c) # strip_triangles (b # c # rest)"
| "strip_triangles rest = []"

definition edge_side :: "GLfloat \<times> GLfloat \<Rightarrow> GLfloat \<times> GLfloat \<Rightarrow> GLfloat \<times> GLfloat \<Rightarrow> GLfloat" where
  "edge_side a b p = (fst b - fst a) * (snd p - snd a) - (snd b - snd a) * (fst p - fst a)"

definition in_triangle ::
    "GLfloat \<times> GLfloat \<Rightarrow> (GLfloat \<times> GLfloat) \<times> (GLfloat \<times> GLfloat) \<times> (GLfloat \<times> GLfloat) \<Rightarrow> bool" where
  "in_triangle p tri =
     (case tri of (a, b, c) \<Rightarrow>
        (0 \<le> edge_side a b p \<and> 0 \<le> edge_side b c p \<and> 0 \<le> edge_side c a p) \<or>
        (edge_side a b p \<le> 0 \<and> edge_side b c p \<le> 0 \<and> edge_side c a p \<le> 0))"

definition position_vertices :: "trace \<Rightarrow> (GLfloat \<times> GLfloat) list" where
  \<comment> \<open>the vertices in the first buffer a trace uploads\<close>
  "position_vertices t = (case buffer_uploads t of [] \<Rightarrow> [] | (n, xs) # others \<Rightarrow> vertices2 xs)"

subsection \<open>The report of a log\<close>

text \<open>
  What it is to fetch and print the log of a shader, for a report that starts after \<open>n\<close>
  events: the length of the log is asked for; as many characters as the variable
  \<open>info_length\<close> then holds are fetched (the length the driver stored, or the value the
  variable had before where the driver stores nothing); and a string of that size, with what
  the driver wrote at its start, is printed. \<open>size_of\<close> is the cast of the length to the size
  of the string. The second definition is the same for the log of a program.
\<close>

definition shader_log_report :: "env \<Rightarrow> nat \<Rightarrow> GLuint \<Rightarrow> GLint \<Rightarrow> (GLint \<Rightarrow> nat) \<Rightarrow> event list" where
  "shader_log_report gl n shader info_length size_of =
     [Shader (E_glGetShaderiv shader GL_INFO_LOG_LENGTH (GetShaderiv_out gl n shader GL_INFO_LOG_LENGTH)),
      Shader (E_glGetShaderInfoLog shader
        (stored info_length (GetShaderiv_out gl n shader GL_INFO_LOG_LENGTH))
        (GetShaderInfoLog_out gl (n + 1) shader
           (stored info_length (GetShaderiv_out gl n shader GL_INFO_LOG_LENGTH)))),
      IO (E_cout (info_log_text
        (size_of (stored info_length (GetShaderiv_out gl n shader GL_INFO_LOG_LENGTH)))
        (GetShaderInfoLog_out gl (n + 1) shader
           (stored info_length (GetShaderiv_out gl n shader GL_INFO_LOG_LENGTH)))))]"

definition program_log_report :: "env \<Rightarrow> nat \<Rightarrow> GLuint \<Rightarrow> GLint \<Rightarrow> (GLint \<Rightarrow> nat) \<Rightarrow> event list" where
  "program_log_report gl n program info_length size_of =
     [Shader (E_glGetProgramiv program GL_INFO_LOG_LENGTH (GetProgramiv_out gl n program GL_INFO_LOG_LENGTH)),
      Shader (E_glGetProgramInfoLog program
        (stored info_length (GetProgramiv_out gl n program GL_INFO_LOG_LENGTH))
        (GetProgramInfoLog_out gl (n + 1) program
           (stored info_length (GetProgramiv_out gl n program GL_INFO_LOG_LENGTH)))),
      IO (E_cout (info_log_text
        (size_of (stored info_length (GetProgramiv_out gl n program GL_INFO_LOG_LENGTH)))
        (GetProgramInfoLog_out gl (n + 1) program
           (stored info_length (GetProgramiv_out gl n program GL_INFO_LOG_LENGTH)))))]"

definition info_length_after :: "GLint \<Rightarrow> GLint \<Rightarrow> GLint option \<Rightarrow> GLint" where
  \<comment> \<open>the variable \<open>info_length\<close> after a stage: the length is asked for only when the stage
      failed\<close>
  "info_length_after result info_length stored_length =
     (if result = GL_FALSE then stored info_length stored_length else info_length)"

subsection \<open>The frames of the render loop\<close>

definition frame_events :: "GLFWwindow \<Rightarrow> event list" where
  \<comment> \<open>clear with the gray colour, draw the strip, present, poll\<close>
  "frame_events window =
     [Frame (E_glClearColor 0.5 0.5 0.5 0),
      Frame (E_glClear [GL_COLOR_BUFFER_BIT, GL_DEPTH_BUFFER_BIT]),
      Frame (E_glDrawArrays GL_TRIANGLE_STRIP 0 4),
      Window (E_glfwSwapBuffers window),
      Window E_glfwPollEvents]"

definition close_answer :: "env \<Rightarrow> GLFWwindow \<Rightarrow> nat \<Rightarrow> nat \<Rightarrow> c_int" where
  \<comment> \<open>what \<open>glfwWindowShouldClose\<close> answers at the head of iteration \<open>k\<close> of a loop entered
      after \<open>n\<close> events: an iteration is one query and the five calls of a frame\<close>
  "close_answer gl window n k = glfwWindowShouldClose_ret gl (n + 6 * k) window"

fun iterations :: "env \<Rightarrow> GLFWwindow \<Rightarrow> nat \<Rightarrow> nat \<Rightarrow> event list" where
  \<comment> \<open>the events of \<open>k\<close> full iterations of a loop entered after \<open>n\<close> events\<close>
  "iterations gl window n 0 = []"
| "iterations gl window n (Suc k) =
     Window (E_glfwWindowShouldClose window (glfwWindowShouldClose_ret gl n window)) #
     frame_events window @ iterations gl window (n + 6) k"

subsection \<open>Initialisation\<close>

definition init_failure :: "env \<Rightarrow> bool" where
  \<comment> \<open>GLFW does not initialise, or no window with a 3.3 context is created, or GLEW reports
      that OpenGL 3.3 is not supported. The numbers are the events before each call.\<close>
  "init_failure gl =
     (glfwInit_ret gl 0 = 0 \<or>
      glfwCreateWindow_ret gl 6 SIZE SIZE ''OpenGL'' = None \<or>
      glewIsSupported_ret gl 10 ''GL_VERSION_3_3'' = 0)"

definition init_events :: "env \<Rightarrow> GLFWwindow \<Rightarrow> event list" where
  \<comment> \<open>the events of an initialisation that succeeds with the window \<open>window\<close>\<close>
  "init_events gl window =
     [Window (E_glfwInit (glfwInit_ret gl 0)),
      Window (E_glfwWindowHint GLFW_SAMPLES 4),
      Window (E_glfwWindowHint GLFW_CONTEXT_VERSION_MAJOR 3),
      Window (E_glfwWindowHint GLFW_CONTEXT_VERSION_MINOR 3),
      Window (E_glfwWindowHint GLFW_OPENGL_FORWARD_COMPAT GL_TRUE),
      Window (E_glfwWindowHint GLFW_OPENGL_PROFILE GLFW_OPENGL_CORE_PROFILE),
      Window (E_glfwCreateWindow SIZE SIZE ''OpenGL'' (Some window)),
      Window (E_glfwMakeContextCurrent window),
      Window (E_glewExperimental GL_TRUE),
      Window E_glewInit,
      Window (E_glewIsSupported ''GL_VERSION_3_3'' (glewIsSupported_ret gl 10 ''GL_VERSION_3_3''))]"

definition read_error :: "files \<Rightarrow> string \<Rightarrow> bool" where
  \<comment> \<open>the path opens and cannot be read\<close>
  "read_error fs path = (fs path = Some Read_error)"

section \<open>Sample environments\<close>

text \<open>
  Environments and file systems on which the theorems below are instantiated: a driver on
  which everything succeeds and the window is closed after some frames, and variants of it
  on which one step fails.
\<close>

definition env_ok :: env where
  "env_ok =
    \<lparr> CreateShader_ret = (\<lambda>n ty. if ty = GL_VERTEX_SHADER then 1 else 2),
      GetShaderiv_out = (\<lambda>n shader pname. if pname = GL_COMPILE_STATUS then Some GL_TRUE else Some 0),
      GetShaderInfoLog_out = (\<lambda>n shader bufSize. []),
      CreateProgram_ret = (\<lambda>n. 3),
      GetProgramiv_out = (\<lambda>n program pname. if pname = GL_LINK_STATUS then Some GL_TRUE else Some 0),
      GetProgramInfoLog_out = (\<lambda>n program bufSize. []),
      GenVertexArrays_out = (\<lambda>n. 1),
      GenBuffers_out = (\<lambda>n. of_nat n),
      GetAttribLocation_ret = (\<lambda>n program name. if name = ''Position'' then 0 else 1),
      GenTextures_out = (\<lambda>n. 1),
      GetUniformLocation_ret = (\<lambda>n program name. 0),
      glfwInit_ret = (\<lambda>n. 1),
      glfwCreateWindow_ret = (\<lambda>n width height title. Some 1),
      glewIsSupported_ret = (\<lambda>n name. 1),
      glfwWindowShouldClose_ret = (\<lambda>n window. if 100 \<le> n then 1 else 0) \<rparr>"

definition env_bad_shaders :: env where
  \<comment> \<open>both shaders fail to compile with a log of three characters; the program fails to
      link and has no log\<close>
  "env_bad_shaders =
     env_ok
      \<lparr> GetShaderiv_out := (\<lambda>n shader pname. if pname = GL_COMPILE_STATUS then Some GL_FALSE else Some 4),
        GetShaderInfoLog_out := (\<lambda>n shader bufSize. ''bad'' @ [CHR 0x00]),
        GetProgramiv_out := (\<lambda>n program pname. if pname = GL_LINK_STATUS then Some GL_FALSE else Some 0) \<rparr>"

definition env_no_attributes :: env where
  \<comment> \<open>no attribute is found: every lookup answers \<open>-1\<close>\<close>
  "env_no_attributes = env_ok \<lparr> GetAttribLocation_ret := (\<lambda>n program name. - 1) \<rparr>"

definition env_no_glfw :: env where
  "env_no_glfw = env_ok \<lparr> glfwInit_ret := (\<lambda>n. 0) \<rparr>"

definition env_no_window :: env where
  "env_no_window = env_ok \<lparr> glfwCreateWindow_ret := (\<lambda>n width height title. None) \<rparr>"

definition env_no_gl33 :: env where
  "env_no_gl33 = env_ok \<lparr> glewIsSupported_ret := (\<lambda>n name. 0) \<rparr>"

definition env_never_closed :: env where
  "env_never_closed = env_ok \<lparr> glfwWindowShouldClose_ret := (\<lambda>n window. 0) \<rparr>"

definition env_two_frames :: env where
  \<comment> \<open>the third query of a loop entered with an empty trace reports the close request\<close>
  "env_two_frames = env_ok \<lparr> glfwWindowShouldClose_ret := (\<lambda>n window. if 12 \<le> n then 1 else 0) \<rparr>"

definition no_files :: files where
  "no_files = (\<lambda>path. None)"

definition short_image :: files where
  \<comment> \<open>an image file of three bytes\<close>
  "short_image = [''lena.rgb'' \<mapsto> Readable ''abc'']"

definition vertex_is_directory :: files where
  \<comment> \<open>the path of the vertex shader opens and cannot be read\<close>
  "vertex_is_directory = [''gl_texture.vert'' \<mapsto> Read_error]"

section \<open>Facts about the model\<close>

lemmas reading_defs =
  shader_created_def shader_deleted_def program_created_def shader_source_def diagnostic_def
  buffer_data_def read_request_def uploaded_pixels_def close_reported_def

lemmas readings_defs =
  shaders_created_def shaders_deleted_def programs_created_def shader_sources_def
  diagnostics_def buffer_uploads_def read_requests_def texture_uploads_def

subsection \<open>\<open>ShaderProgram\<close>\<close>

text \<open>
  The three blocks that check a log, for a block entered with the trace \<open>t\<close>: the status is
  asked for, and exactly when \<open>result\<close> is then \<open>GL_FALSE\<close> the log is reported. The length
  asked for, the number of characters fetched and the text printed are those of
  \<open>shader_log_report\<close>.
\<close>

lemma check_vertex_shader_log_events:
  "check_vertex_shader_log gl sh r0 il0 t =
     (stored r0 (GetShaderiv_out gl (length t) sh GL_COMPILE_STATUS),
      info_length_after (stored r0 (GetShaderiv_out gl (length t) sh GL_COMPILE_STATUS)) il0
        (GetShaderiv_out gl (length t + 1) sh GL_INFO_LOG_LENGTH),
      t @ Shader (E_glGetShaderiv sh GL_COMPILE_STATUS (GetShaderiv_out gl (length t) sh GL_COMPILE_STATUS)) #
          when_failed (stored r0 (GetShaderiv_out gl (length t) sh GL_COMPILE_STATUS))
            (shader_log_report gl (length t + 1) sh il0 unsigned_int))"
  by (simp add: check_vertex_shader_log_def Let_def glGetShaderiv_def glGetShaderInfoLog_def
        cout_def stored_def when_failed_def info_log_text_def std_string_def store_def
        shader_log_report_def info_length_after_def)

lemma check_fragment_shader_log_events:
  "check_fragment_shader_log gl sh r0 il0 t =
     (stored r0 (GetShaderiv_out gl (length t) sh GL_COMPILE_STATUS),
      info_length_after (stored r0 (GetShaderiv_out gl (length t) sh GL_COMPILE_STATUS)) il0
        (GetShaderiv_out gl (length t + 1) sh GL_INFO_LOG_LENGTH),
      t @ Shader (E_glGetShaderiv sh GL_COMPILE_STATUS (GetShaderiv_out gl (length t) sh GL_COMPILE_STATUS)) #
          when_failed (stored r0 (GetShaderiv_out gl (length t) sh GL_COMPILE_STATUS))
            (shader_log_report gl (length t + 1) sh il0 unsigned_long))"
  by (simp add: check_fragment_shader_log_def Let_def glGetShaderiv_def glGetShaderInfoLog_def
        cout_def stored_def when_failed_def info_log_text_def std_string_def store_def
        shader_log_report_def info_length_after_def)

lemma check_program_log_events:
  "check_program_log gl p r0 il0 t =
     (stored r0 (GetProgramiv_out gl (length t) p GL_LINK_STATUS),
      info_length_after (stored r0 (GetProgramiv_out gl (length t) p GL_LINK_STATUS)) il0
        (GetProgramiv_out gl (length t + 1) p GL_INFO_LOG_LENGTH),
      t @ Shader (E_glGetProgramiv p GL_LINK_STATUS (GetProgramiv_out gl (length t) p GL_LINK_STATUS)) #
          when_failed (stored r0 (GetProgramiv_out gl (length t) p GL_LINK_STATUS))
            (program_log_report gl (length t + 1) p il0 unsigned_long))"
  by (simp add: check_program_log_def Let_def glGetProgramiv_def glGetProgramInfoLog_def
        cout_def stored_def when_failed_def info_log_text_def std_string_def store_def
        program_log_report_def info_length_after_def)

text \<open>
  A read that fails leaves \<open>ShaderProgram\<close> at once: after the two shaders were created and
  the stream was opened.
\<close>

lemma ShaderProgram_vertex_read_fails:
  "istreambuf_string (fs vf) = Inl thrown \<Longrightarrow>
   ShaderProgram gl fs vf ff t0 =
     Inl (thrown,
       t0 @ [Shader (E_glCreateShader GL_VERTEX_SHADER (CreateShader_ret gl (length t0) GL_VERTEX_SHADER)),
             Shader (E_glCreateShader GL_FRAGMENT_SHADER
               (CreateShader_ret gl (length t0 + 1) GL_FRAGMENT_SHADER)),
             IO (E_ifstream vf ios_in)])"
  by (simp add: ShaderProgram_def glCreateShader_def ifstream_def)

lemma ShaderProgram_fragment_read_fails:
  "istreambuf_string (fs vf) = Inr vertex_code \<Longrightarrow> istreambuf_string (fs ff) = Inl thrown \<Longrightarrow>
   ShaderProgram gl fs vf ff t0 =
     Inl (thrown,
       t0 @ [Shader (E_glCreateShader GL_VERTEX_SHADER (CreateShader_ret gl (length t0) GL_VERTEX_SHADER)),
             Shader (E_glCreateShader GL_FRAGMENT_SHADER
               (CreateShader_ret gl (length t0 + 1) GL_FRAGMENT_SHADER)),
             IO (E_ifstream vf ios_in),
             IO (E_ifstream ff ios_in)])"
  by (simp add: ShaderProgram_def glCreateShader_def ifstream_def)

lemma istreambuf_string_cases:
  "istreambuf_string stream = Inl ios_failure \<longleftrightarrow> stream = Some Read_error"
  "(\<exists>code. istreambuf_string stream = Inr code) \<longleftrightarrow> stream \<noteq> Some Read_error"
  by (simp_all add: istreambuf_string_def split: option.split file_state.split)

text \<open>
  The events of a call of \<open>ShaderProgram\<close> whose two reads deliver, whatever the libraries
  answer: three stretches that are always there, each followed by the report of a log that
  is there exactly when \<open>result\<close> is \<open>GL_FALSE\<close> after the status query, and the two
  deletions. \<open>t7\<close>, \<open>t11\<close> and \<open>t18\<close> are the traces at the three status queries, \<open>t13\<close> the one
  at the creation of the program.
\<close>

lemma ShaderProgram_run:
  assumes vertex: "istreambuf_string (fs vf) = Inr vertex_code"
    and fragment: "istreambuf_string (fs ff) = Inr fragment_code"
  shows "\<exists>vid fid pid sv sf sl rv rf rl iv if' t7 t11 t13 t18.
     ShaderProgram gl fs vf ff t0 =
       Inr (pid,
         t18 @ Shader (E_glGetProgramiv pid GL_LINK_STATUS sl) #
               when_failed rl (program_log_report gl (length t18 + 1) pid if' unsigned_long) @
               [Shader (E_glDeleteShader vid),
                Shader (E_glDeleteShader fid)]) \<and>
     vid = CreateShader_ret gl (length t0) GL_VERTEX_SHADER \<and>
     fid = CreateShader_ret gl (length t0 + 1) GL_FRAGMENT_SHADER \<and>
     t7 = t0 @ [Shader (E_glCreateShader GL_VERTEX_SHADER vid),
                Shader (E_glCreateShader GL_FRAGMENT_SHADER fid),
                IO (E_ifstream vf ios_in),
                IO (E_ifstream ff ios_in),
                IO (E_cout ''Compiling Vertex Shader ...''),
                Shader (E_glShaderSource vid 1 (c_str vertex_code)),
                Shader (E_glCompileShader vid)] \<and>
     sv = GetShaderiv_out gl (length t7) vid GL_COMPILE_STATUS \<and>
     rv = stored GL_FALSE sv \<and>
     iv = info_length_after rv 0 (GetShaderiv_out gl (length t7 + 1) vid GL_INFO_LOG_LENGTH) \<and>
     t11 = t7 @ Shader (E_glGetShaderiv vid GL_COMPILE_STATUS sv) #
                when_failed rv (shader_log_report gl (length t7 + 1) vid 0 unsigned_int) @
                [IO (E_cout ''Compiling Fragment Shader ...''),
                 Shader (E_glShaderSource fid 1 (c_str fragment_code)),
                 Shader (E_glCompileShader fid)] \<and>
     sf = GetShaderiv_out gl (length t11) fid GL_COMPILE_STATUS \<and>
     rf = stored rv sf \<and>
     if' = info_length_after rf iv (GetShaderiv_out gl (length t11 + 1) fid GL_INFO_LOG_LENGTH) \<and>
     t13 = t11 @ Shader (E_glGetShaderiv fid GL_COMPILE_STATUS sf) #
                 when_failed rf (shader_log_report gl (length t11 + 1) fid iv unsigned_long) @
                 [IO (E_cout ''Linking Shader Program ...'')] \<and>
     pid = CreateProgram_ret gl (length t13) \<and>
     t18 = t13 @ [Shader (E_glCreateProgram pid),
                  Shader (E_glAttachShader pid vid),
                  Shader (E_glAttachShader pid fid),
                  Shader (E_glBindFragDataLocation pid 0 ''FragmentColor''),
                  Shader (E_glLinkProgram pid)] \<and>
     sl = GetProgramiv_out gl (length t18) pid GL_LINK_STATUS \<and>
     rl = stored rf sl"
proof -
  define vid where "vid = CreateShader_ret gl (length t0) GL_VERTEX_SHADER"
  define fid where "fid = CreateShader_ret gl (length t0 + 1) GL_FRAGMENT_SHADER"
  define t2 where "t2 = t0 @ [Shader (E_glCreateShader GL_VERTEX_SHADER vid),
      Shader (E_glCreateShader GL_FRAGMENT_SHADER fid)]"
  have 1: "glCreateShader gl GL_VERTEX_SHADER t0 =
      (vid, t0 @ [Shader (E_glCreateShader GL_VERTEX_SHADER vid)])"
    by (simp add: glCreateShader_def vid_def)
  have 2: "glCreateShader gl GL_FRAGMENT_SHADER (t0 @ [Shader (E_glCreateShader GL_VERTEX_SHADER vid)]) =
      (fid, t2)"
    by (simp add: glCreateShader_def fid_def t2_def)
  define t7 where "t7 = t2 @ [IO (E_ifstream vf ios_in), IO (E_ifstream ff ios_in),
      IO (E_cout ''Compiling Vertex Shader ...''),
      Shader (E_glShaderSource vid 1 (c_str vertex_code)),
      Shader (E_glCompileShader vid)]"
  define sv where "sv = GetShaderiv_out gl (length t7) vid GL_COMPILE_STATUS"
  define rv where "rv = stored GL_FALSE sv"
  define iv where "iv = info_length_after rv 0 (GetShaderiv_out gl (length t7 + 1) vid GL_INFO_LOG_LENGTH)"
  define t8 where "t8 = t7 @ Shader (E_glGetShaderiv vid GL_COMPILE_STATUS sv) #
      when_failed rv (shader_log_report gl (length t7 + 1) vid 0 unsigned_int)"
  have 3: "check_vertex_shader_log gl vid GL_FALSE 0 t7 = (rv, iv, t8)"
    unfolding rv_def iv_def t8_def sv_def by (rule check_vertex_shader_log_events)
  define t11 where "t11 = t8 @ [IO (E_cout ''Compiling Fragment Shader ...''),
      Shader (E_glShaderSource fid 1 (c_str fragment_code)),
      Shader (E_glCompileShader fid)]"
  define sf where "sf = GetShaderiv_out gl (length t11) fid GL_COMPILE_STATUS"
  define rf where "rf = stored rv sf"
  define if' where "if' = info_length_after rf iv (GetShaderiv_out gl (length t11 + 1) fid GL_INFO_LOG_LENGTH)"
  define t12 where "t12 = t11 @ Shader (E_glGetShaderiv fid GL_COMPILE_STATUS sf) #
      when_failed rf (shader_log_report gl (length t11 + 1) fid iv unsigned_long)"
  have 4: "check_fragment_shader_log gl fid rv iv t11 = (rf, if', t12)"
    unfolding rf_def if'_def t12_def sf_def by (rule check_fragment_shader_log_events)
  define t13 where "t13 = t12 @ [IO (E_cout ''Linking Shader Program ...'')]"
  define pid where "pid = CreateProgram_ret gl (length t13)"
  define t14 where "t14 = t13 @ [Shader (E_glCreateProgram pid)]"
  have 5: "glCreateProgram gl t13 = (pid, t14)"
    by (simp add: glCreateProgram_def pid_def t14_def)
  define t18 where "t18 = t14 @ [Shader (E_glAttachShader pid vid), Shader (E_glAttachShader pid fid),
      Shader (E_glBindFragDataLocation pid 0 ''FragmentColor''), Shader (E_glLinkProgram pid)]"
  define sl where "sl = GetProgramiv_out gl (length t18) pid GL_LINK_STATUS"
  define rl where "rl = stored rf sl"
  define ip where "ip = info_length_after rl if' (GetProgramiv_out gl (length t18 + 1) pid GL_INFO_LOG_LENGTH)"
  define t19 where "t19 = t18 @ Shader (E_glGetProgramiv pid GL_LINK_STATUS sl) #
      when_failed rl (program_log_report gl (length t18 + 1) pid if' unsigned_long)"
  have 6: "check_program_log gl pid rf if' t18 = (rl, ip, t19)"
    unfolding rl_def ip_def t19_def sl_def by (rule check_program_log_events)
  have "ShaderProgram gl fs vf ff t0 =
      Inr (pid, t19 @ [Shader (E_glDeleteShader vid), Shader (E_glDeleteShader fid)])"
    by (simp add: ShaderProgram_def 1 2 vertex fragment 3 [unfolded t7_def] 4 [unfolded t11_def]
          5 [unfolded t13_def] 6 [unfolded t18_def] ifstream_def cout_def glShaderSource_def
          glCompileShader_def glAttachShader_def glBindFragDataLocation_def glLinkProgram_def
          glDeleteShader_def del: One_nat_def)
  then have run: "ShaderProgram gl fs vf ff t0 =
       Inr (pid,
         t18 @ Shader (E_glGetProgramiv pid GL_LINK_STATUS sl) #
               when_failed rl (program_log_report gl (length t18 + 1) pid if' unsigned_long) @
               [Shader (E_glDeleteShader vid),
                Shader (E_glDeleteShader fid)])"
    by (simp add: t19_def)
  have t7: "t7 = t0 @ [Shader (E_glCreateShader GL_VERTEX_SHADER vid),
                Shader (E_glCreateShader GL_FRAGMENT_SHADER fid),
                IO (E_ifstream vf ios_in),
                IO (E_ifstream ff ios_in),
                IO (E_cout ''Compiling Vertex Shader ...''),
                Shader (E_glShaderSource vid 1 (c_str vertex_code)),
                Shader (E_glCompileShader vid)]"
    by (simp add: t7_def t2_def)
  have t11: "t11 = t7 @ Shader (E_glGetShaderiv vid GL_COMPILE_STATUS sv) #
                when_failed rv (shader_log_report gl (length t7 + 1) vid 0 unsigned_int) @
                [IO (E_cout ''Compiling Fragment Shader ...''),
                 Shader (E_glShaderSource fid 1 (c_str fragment_code)),
                 Shader (E_glCompileShader fid)]"
    by (simp add: t11_def t8_def)
  have t13: "t13 = t11 @ Shader (E_glGetShaderiv fid GL_COMPILE_STATUS sf) #
                 when_failed rf (shader_log_report gl (length t11 + 1) fid iv unsigned_long) @
                 [IO (E_cout ''Linking Shader Program ...'')]"
    by (simp add: t13_def t12_def)
  have t18: "t18 = t13 @ [Shader (E_glCreateProgram pid),
                  Shader (E_glAttachShader pid vid),
                  Shader (E_glAttachShader pid fid),
                  Shader (E_glBindFragDataLocation pid 0 ''FragmentColor''),
                  Shader (E_glLinkProgram pid)]"
    by (simp add: t18_def t14_def)
  from run vid_def fid_def t7 sv_def rv_def iv_def t11 sf_def rf_def if'_def t13 pid_def t18 sl_def rl_def
  show ?thesis
    by (intro exI conjI)
qed

lemma readings_append [simp]:
  "shaders_created (xs @ ys) = shaders_created xs @ shaders_created ys"
  "shaders_deleted (xs @ ys) = shaders_deleted xs @ shaders_deleted ys"
  "programs_created (xs @ ys) = programs_created xs @ programs_created ys"
  "shader_sources (xs @ ys) = shader_sources xs @ shader_sources ys"
  "diagnostics (xs @ ys) = diagnostics xs @ diagnostics ys"
  "buffer_uploads (xs @ ys) = buffer_uploads xs @ buffer_uploads ys"
  "read_requests (xs @ ys) = read_requests xs @ read_requests ys"
  "texture_uploads (xs @ ys) = texture_uploads xs @ texture_uploads ys"
  by (simp_all add: readings_defs)

lemma readings_Cons:
  "shaders_created (e # xs) = shader_created e @ shaders_created xs"
  "shaders_deleted (e # xs) = shader_deleted e @ shaders_deleted xs"
  "programs_created (e # xs) = program_created e @ programs_created xs"
  "shader_sources (e # xs) = shader_source e @ shader_sources xs"
  "diagnostics (e # xs) = diagnostic e @ diagnostics xs"
  "buffer_uploads (e # xs) = buffer_data e @ buffer_uploads xs"
  "read_requests (e # xs) = read_request e @ read_requests xs"
  "texture_uploads (e # xs) = uploaded_pixels e @ texture_uploads xs"
  "shaders_created [] = []" "shaders_deleted [] = []" "programs_created [] = []"
  "shader_sources [] = []" "diagnostics [] = []" "buffer_uploads [] = []"
  "read_requests [] = []" "texture_uploads [] = []"
  by (simp_all add: readings_defs)

lemma readings_when_failed [simp]:
  "shaders_created (when_failed r (shader_log_report gl n sh il size_of)) = []"
  "shaders_deleted (when_failed r (shader_log_report gl n sh il size_of)) = []"
  "programs_created (when_failed r (shader_log_report gl n sh il size_of)) = []"
  "shader_sources (when_failed r (shader_log_report gl n sh il size_of)) = []"
  "shaders_created (when_failed r (program_log_report gl n sh il size_of)) = []"
  "shaders_deleted (when_failed r (program_log_report gl n sh il size_of)) = []"
  "programs_created (when_failed r (program_log_report gl n sh il size_of)) = []"
  "shader_sources (when_failed r (program_log_report gl n sh il size_of)) = []"
  by (simp_all add: when_failed_def shader_log_report_def program_log_report_def
        readings_Cons reading_defs)

text \<open>What a call that returns has created, deleted and handed to the compiler.\<close>

lemma ShaderProgram_readings:
  assumes returned: "ShaderProgram gl fs vf ff t0 = Inr (program_id, t)"
  shows "\<exists>vid fid vertex_code fragment_code.
     istreambuf_string (fs vf) = Inr vertex_code \<and>
     istreambuf_string (fs ff) = Inr fragment_code \<and>
     shaders_created (drop (length t0) t) = [vid, fid] \<and>
     shaders_deleted (drop (length t0) t) = [vid, fid] \<and>
     programs_created (drop (length t0) t) = [program_id] \<and>
     shader_sources (drop (length t0) t) = [(vid, c_str vertex_code), (fid, c_str fragment_code)] \<and>
     (\<exists>before. t = before @ [Shader (E_glDeleteShader vid), Shader (E_glDeleteShader fid)])"
proof -
  obtain vertex_code where vertex: "istreambuf_string (fs vf) = Inr vertex_code"
  proof (cases "istreambuf_string (fs vf)")
    case (Inl thrown)
    from ShaderProgram_vertex_read_fails [of fs vf thrown gl ff t0, OF Inl] returned show ?thesis
      by simp
  next
    case (Inr code)
    then show ?thesis
      by (rule that)
  qed
  obtain fragment_code where fragment: "istreambuf_string (fs ff) = Inr fragment_code"
  proof (cases "istreambuf_string (fs ff)")
    case (Inl thrown)
    from ShaderProgram_fragment_read_fails [of fs vf vertex_code ff thrown gl t0, OF vertex Inl] returned show ?thesis
      by simp
  next
    case (Inr code)
    then show ?thesis
      by (rule that)
  qed
  from ShaderProgram_run [of fs vf vertex_code ff fragment_code gl t0, OF vertex fragment]
  obtain vid fid pid sv sf sl rv rf rl iv if' t7 t11 t13 t18 where
    run: "ShaderProgram gl fs vf ff t0 =
       Inr (pid,
         t18 @ Shader (E_glGetProgramiv pid GL_LINK_STATUS sl) #
               when_failed rl (program_log_report gl (length t18 + 1) pid if' unsigned_long) @
               [Shader (E_glDeleteShader vid),
                Shader (E_glDeleteShader fid)])"
    and vid_eq: "vid = CreateShader_ret gl (length t0) GL_VERTEX_SHADER"
    and fid_eq: "fid = CreateShader_ret gl (length t0 + 1) GL_FRAGMENT_SHADER"
    and t7_eq: "t7 = t0 @ [Shader (E_glCreateShader GL_VERTEX_SHADER vid),
                Shader (E_glCreateShader GL_FRAGMENT_SHADER fid),
                IO (E_ifstream vf ios_in),
                IO (E_ifstream ff ios_in),
                IO (E_cout ''Compiling Vertex Shader ...''),
                Shader (E_glShaderSource vid 1 (c_str vertex_code)),
                Shader (E_glCompileShader vid)]"
    and sv_eq: "sv = GetShaderiv_out gl (length t7) vid GL_COMPILE_STATUS"
    and rv_eq: "rv = stored GL_FALSE sv"
    and iv_eq: "iv = info_length_after rv 0 (GetShaderiv_out gl (length t7 + 1) vid GL_INFO_LOG_LENGTH)"
    and t11_eq: "t11 = t7 @ Shader (E_glGetShaderiv vid GL_COMPILE_STATUS sv) #
                when_failed rv (shader_log_report gl (length t7 + 1) vid 0 unsigned_int) @
                [IO (E_cout ''Compiling Fragment Shader ...''),
                 Shader (E_glShaderSource fid 1 (c_str fragment_code)),
                 Shader (E_glCompileShader fid)]"
    and sf_eq: "sf = GetShaderiv_out gl (length t11) fid GL_COMPILE_STATUS"
    and rf_eq: "rf = stored rv sf"
    and if_eq: "if' = info_length_after rf iv (GetShaderiv_out gl (length t11 + 1) fid GL_INFO_LOG_LENGTH)"
    and t13_eq: "t13 = t11 @ Shader (E_glGetShaderiv fid GL_COMPILE_STATUS sf) #
                 when_failed rf (shader_log_report gl (length t11 + 1) fid iv unsigned_long) @
                 [IO (E_cout ''Linking Shader Program ...'')]"
    and pid_eq: "pid = CreateProgram_ret gl (length t13)"
    and t18_eq: "t18 = t13 @ [Shader (E_glCreateProgram pid),
                  Shader (E_glAttachShader pid vid),
                  Shader (E_glAttachShader pid fid),
                  Shader (E_glBindFragDataLocation pid 0 ''FragmentColor''),
                  Shader (E_glLinkProgram pid)]"
    and sl_eq: "sl = GetProgramiv_out gl (length t18) pid GL_LINK_STATUS"
    and rl_eq: "rl = stored rf sl"
    by (elim exE conjE)
  from run returned have pid: "program_id = pid"
    and t: "t = t18 @ Shader (E_glGetProgramiv pid GL_LINK_STATUS sl) #
               when_failed rl (program_log_report gl (length t18 + 1) pid if' unsigned_long) @
               [Shader (E_glDeleteShader vid),
                Shader (E_glDeleteShader fid)]"
    by simp_all
  have last: "\<exists>before. t = before @ [Shader (E_glDeleteShader vid), Shader (E_glDeleteShader fid)]"
    unfolding t
    by (rule exI [of _ "t18 @ Shader (E_glGetProgramiv pid GL_LINK_STATUS sl) #
               when_failed rl (program_log_report gl (length t18 + 1) pid if' unsigned_long)"])
       simp
  have created: "shaders_created (drop (length t0) t) = [vid, fid]"
    and deleted: "shaders_deleted (drop (length t0) t) = [vid, fid]"
    and programs: "programs_created (drop (length t0) t) = [program_id]"
    and sources: "shader_sources (drop (length t0) t) =
      [(vid, c_str vertex_code), (fid, c_str fragment_code)]"
    unfolding t pid t18_eq t13_eq t11_eq t7_eq
    by (simp_all add: readings_Cons reading_defs)
  show ?thesis
    by (rule exI [of _ vid], rule exI [of _ fid], rule exI [of _ vertex_code],
        rule exI [of _ fragment_code])
       (intro conjI vertex fragment created deleted programs sources last)
qed

text \<open>Only what the two streams deliver reaches \<open>ShaderProgram\<close>.\<close>

lemma ShaderProgram_same_code:
  "istreambuf_string (fs vf) = istreambuf_string (fs' vf) \<Longrightarrow>
   istreambuf_string (fs ff) = istreambuf_string (fs' ff) \<Longrightarrow>
   ShaderProgram gl fs vf ff t0 = ShaderProgram gl fs' vf ff t0"
  by (cases "istreambuf_string (fs' vf)"; cases "istreambuf_string (fs' ff)")
     (simp_all add: ShaderProgram_def ifstream_def)

text \<open>
  A run on the sample driver on which both compilations and the link fail: each log is
  fetched and printed, every later call is still made, and the handle of the program is
  returned.
\<close>

lemma ShaderProgram_on_failing_driver:
  "ShaderProgram env_bad_shaders no_files ''gl_texture.vert'' ''gl_texture.frag'' [] =
     Inr (3, [Shader (E_glCreateShader GL_VERTEX_SHADER 1),
          Shader (E_glCreateShader GL_FRAGMENT_SHADER 2),
          IO (E_ifstream ''gl_texture.vert'' ios_in),
          IO (E_ifstream ''gl_texture.frag'' ios_in),
          IO (E_cout ''Compiling Vertex Shader ...''),
          Shader (E_glShaderSource 1 1 []),
          Shader (E_glCompileShader 1),
          Shader (E_glGetShaderiv 1 GL_COMPILE_STATUS (Some 0)),
          Shader (E_glGetShaderiv 1 GL_INFO_LOG_LENGTH (Some 4)),
          Shader (E_glGetShaderInfoLog 1 4 [CHR ''b'', CHR ''a'', CHR ''d'', CHR 0x00]),
          IO (E_cout [CHR ''b'', CHR ''a'', CHR ''d'', CHR 0x00]),
          IO (E_cout ''Compiling Fragment Shader ...''),
          Shader (E_glShaderSource 2 1 []),
          Shader (E_glCompileShader 2),
          Shader (E_glGetShaderiv 2 GL_COMPILE_STATUS (Some 0)),
          Shader (E_glGetShaderiv 2 GL_INFO_LOG_LENGTH (Some 4)),
          Shader (E_glGetShaderInfoLog 2 4 [CHR ''b'', CHR ''a'', CHR ''d'', CHR 0x00]),
          IO (E_cout [CHR ''b'', CHR ''a'', CHR ''d'', CHR 0x00]),
          IO (E_cout ''Linking Shader Program ...''),
          Shader (E_glCreateProgram 3),
          Shader (E_glAttachShader 3 1),
          Shader (E_glAttachShader 3 2),
          Shader (E_glBindFragDataLocation 3 0 ''FragmentColor''),
          Shader (E_glLinkProgram 3),
          Shader (E_glGetProgramiv 3 GL_LINK_STATUS (Some 0)),
          Shader (E_glGetProgramiv 3 GL_INFO_LOG_LENGTH (Some 0)),
          Shader (E_glGetProgramInfoLog 3 0 []),
          IO (E_cout []),
          Shader (E_glDeleteShader 1),
          Shader (E_glDeleteShader 2)])"
  by (simp add: ShaderProgram_def check_vertex_shader_log_def check_fragment_shader_log_def
        check_program_log_def Let_def glCreateShader_def glShaderSource_def glCompileShader_def
        glGetShaderiv_def glGetShaderInfoLog_def glCreateProgram_def glAttachShader_def
        glBindFragDataLocation_def glLinkProgram_def glGetProgramiv_def glGetProgramInfoLog_def
        glDeleteShader_def cout_def ifstream_def istreambuf_string_def c_str_def store_def
        std_string_def unsigned_int_def unsigned_long_def env_bad_shaders_def env_ok_def
        no_files_def GL_FALSE_def GL_TRUE_def)

subsection \<open>\<open>LoadImage\<close> and \<open>InitializeGeometry\<close>\<close>

lemma store_zeros:
  "store (std_vector_char n) xs = xs @ replicate (n - length xs) (CHR 0x00)"
  by (simp add: store_def std_vector_char_def)

lemma length_extracted: "length (extracted stream n) \<le> n"
  by (simp add: extracted_def split: option.split file_state.split)

lemma LoadImage_events:
  "LoadImage gl fs image_file width height t0 =
     (GenTextures_out gl (length t0),
      t0 @ [Texture (E_glGenTextures 1 (GenTextures_out gl (length t0))),
            Texture (E_glBindTexture GL_TEXTURE_2D (GenTextures_out gl (length t0))),
            Texture (E_glTexParameteri GL_TEXTURE_2D GL_TEXTURE_MAG_FILTER GL_LINEAR),
            Texture (E_glTexParameteri GL_TEXTURE_2D GL_TEXTURE_MIN_FILTER GL_LINEAR),
            IO (E_ifstream image_file ios_in_binary),
            IO (E_read image_file (unat (width * height * 3))
                  (length (extracted (fs image_file) (unat (width * height * 3))))),
            IO (E_close image_file),
            Texture (E_glTexImage2D GL_TEXTURE_2D 0 GL_RGB width height 0 GL_RGB GL_UNSIGNED_BYTE
              (extracted (fs image_file) (unat (width * height * 3)) @
               replicate (unat (width * height * 3) -
                  length (extracted (fs image_file) (unat (width * height * 3)))) (CHR 0x00)))])"
  by (simp add: LoadImage_def Let_def glGenTextures_def glBindTexture_def glTexParameteri_def
        ifstream_def istream_read_def ifstream_close_def glTexImage2D_def store_zeros
        del: One_nat_def)
     (simp add: std_vector_char_def)

lemma unat_size_product:
  "unat (width * height * 3 :: 32 word) = (unat width * unat height * 3) mod 2 ^ 32"
  by (simp add: unat_word_ariths mod_mult_left_eq)

lemma later_events:
  "n + 2 = Suc (Suc n)"
  "n + 5 = Suc (Suc (Suc (Suc (Suc n))))"
  "n + 8 = Suc (Suc (Suc (Suc (Suc (Suc (Suc (Suc n)))))))"
  "n + 11 = Suc (Suc (Suc (Suc (Suc (Suc (Suc (Suc (Suc (Suc (Suc n))))))))))"
  by simp_all

lemma InitializeGeometry_events:
  "InitializeGeometry gl program_id t0 =
     t0 @ [Geometry (E_glGenVertexArrays 1 (GenVertexArrays_out gl (length t0))),
           Geometry (E_glBindVertexArray (GenVertexArrays_out gl (length t0))),
           Geometry (E_glGenBuffers 1 (GenBuffers_out gl (length t0 + 2))),
           Geometry (E_glBindBuffer GL_ARRAY_BUFFER (GenBuffers_out gl (length t0 + 2))),
           Geometry (E_glBufferData GL_ARRAY_BUFFER 32 [1, 1, -1, 1, 1, -1, -1, -1] GL_STATIC_DRAW),
           Geometry (E_glGetAttribLocation program_id ''Position''
             (GetAttribLocation_ret gl (length t0 + 5) program_id ''Position'')),
           Geometry (E_glVertexAttribPointer
             (GetAttribLocation_ret gl (length t0 + 5) program_id ''Position'') 2 GL_FLOAT GL_FALSE 0 0),
           Geometry (E_glEnableVertexAttribArray
             (GetAttribLocation_ret gl (length t0 + 5) program_id ''Position'')),
           Geometry (E_glGenBuffers 1 (GenBuffers_out gl (length t0 + 8))),
           Geometry (E_glBindBuffer GL_ARRAY_BUFFER (GenBuffers_out gl (length t0 + 8))),
           Geometry (E_glBufferData GL_ARRAY_BUFFER 32 [1, 0, 0, 0, 1, 1, 0, 1] GL_STATIC_DRAW),
           Geometry (E_glGetAttribLocation program_id ''TexCoord''
             (GetAttribLocation_ret gl (length t0 + 11) program_id ''TexCoord'')),
           Geometry (E_glVertexAttribPointer
             (GetAttribLocation_ret gl (length t0 + 11) program_id ''TexCoord'') 2 GL_FLOAT GL_FALSE 0 0),
           Geometry (E_glEnableVertexAttribArray
             (GetAttribLocation_ret gl (length t0 + 11) program_id ''TexCoord''))]"
  by (simp add: InitializeGeometry_def Let_def glGenVertexArrays_def glBindVertexArray_def
        glGenBuffers_def glBindBuffer_def glBufferData_def glGetAttribLocation_def
        glVertexAttribPointer_def glEnableVertexAttribArray_def sizeof_GLfloat_def
        later_events del: One_nat_def)

subsection \<open>The render loop\<close>

lemma loop_body_events: "loop_body window t = t @ frame_events window"
  by (simp add: loop_body_def Let_def frame_events_def glClearColor_def glClear_def
        glDrawArrays_def glfwSwapBuffers_def glfwPollEvents_def)

lemma length_frame_events: "length (frame_events window) = 5"
  by (simp add: frame_events_def)

lemma length_iterations: "length (iterations gl window n k) = 6 * k"
  by (induction k arbitrary: n) (simp_all add: length_frame_events)

lemma main_loop_step:
  "main_loop gl window t =
     (if glfwWindowShouldClose_ret gl (length t) window \<noteq> 0
      then Some (t @ [Window (E_glfwWindowShouldClose window (glfwWindowShouldClose_ret gl (length t) window))])
      else main_loop gl window
             (t @ Window (E_glfwWindowShouldClose window (glfwWindowShouldClose_ret gl (length t) window)) #
                  frame_events window))"
  by (subst main_loop.simps) (simp add: glfwWindowShouldClose_def loop_body_events)

lemma close_answer_later:
  "close_answer gl window (n + 6) j = close_answer gl window n (Suc j)"
  by (simp add: close_answer_def add.assoc)

lemma main_loop_iterations:
  "(\<And>j. j < k \<Longrightarrow> close_answer gl window (length t) j = 0) \<Longrightarrow>
   main_loop gl window t = main_loop gl window (t @ iterations gl window (length t) k)"
proof (induction k arbitrary: t)
  case 0
  show ?case by simp
next
  case (Suc k)
  let ?q = "Window (E_glfwWindowShouldClose window (glfwWindowShouldClose_ret gl (length t) window))"
  let ?t = "t @ ?q # frame_events window"
  have first: "glfwWindowShouldClose_ret gl (length t) window = 0"
    using Suc.prems [of 0] by (simp add: close_answer_def)
  have len: "length ?t = length t + 6"
    by (simp add: length_frame_events)
  have "close_answer gl window (length ?t) j = 0" if "j < k" for j
    using Suc.prems [of "Suc j"] that by (simp only: len close_answer_later)
  then have "main_loop gl window ?t = main_loop gl window (?t @ iterations gl window (length ?t) k)"
    by (rule Suc.IH)
  moreover have "main_loop gl window t = main_loop gl window ?t"
    by (subst main_loop_step) (simp add: first)
  ultimately show ?case
    by (simp only: len iterations.simps) simp
qed

lemma main_loop_returns:
  assumes "\<And>j. j < k \<Longrightarrow> close_answer gl window (length t) j = 0"
    and "close_answer gl window (length t) k \<noteq> 0"
  shows "main_loop gl window t =
    Some (t @ iterations gl window (length t) k @
          [Window (E_glfwWindowShouldClose window (close_answer gl window (length t) k))])"
proof -
  have "main_loop gl window t = main_loop gl window (t @ iterations gl window (length t) k)"
    using assms(1) by (rule main_loop_iterations)
  also have "\<dots> = Some ((t @ iterations gl window (length t) k) @
      [Window (E_glfwWindowShouldClose window (close_answer gl window (length t) k))])"
    using assms(2)
    by (subst main_loop_step) (simp add: length_iterations close_answer_def)
  finally show ?thesis by simp
qed

lemma main_loop_only_on_close:
  "main_loop gl window t = Some t' \<Longrightarrow>
   \<exists>k. (\<forall>j<k. close_answer gl window (length t) j = 0) \<and>
       close_answer gl window (length t) k \<noteq> 0 \<and>
       t' = t @ iterations gl window (length t) k @
            [Window (E_glfwWindowShouldClose window (close_answer gl window (length t) k))]"
proof (induct rule: main_loop.raw_induct [rotated 1, consumes 1, case_names step])
  case (step loop gl window t t')
  note IH = step(1) and eq = step(2)
  let ?a = "glfwWindowShouldClose_ret gl (length t) window"
  let ?q = "Window (E_glfwWindowShouldClose window ?a)"
  show ?case
  proof (cases "?a = 0")
    case False
    with eq have "t' = t @ [?q]"
      by (simp add: glfwWindowShouldClose_def)
    with False show ?thesis
      by (intro exI [of _ 0]) (simp add: close_answer_def)
  next
    case True
    define u where "u = t @ ?q # frame_events window"
    have len: "length u = length t + 6"
      by (simp add: u_def length_frame_events)
    from True eq have "loop gl window u = Some t'"
      by (simp add: glfwWindowShouldClose_def loop_body_events u_def)
    then have "\<exists>k. (\<forall>j<k. close_answer gl window (length u) j = 0) \<and>
       close_answer gl window (length u) k \<noteq> 0 \<and>
       t' = u @ iterations gl window (length u) k @
            [Window (E_glfwWindowShouldClose window (close_answer gl window (length u) k))]"
      by (rule IH)
    then obtain k where k1: "\<forall>j<k. close_answer gl window (length u) j = 0"
      and k2: "close_answer gl window (length u) k \<noteq> 0"
      and k3: "t' = u @ iterations gl window (length u) k @
            [Window (E_glfwWindowShouldClose window (close_answer gl window (length u) k))]"
      by (elim exE conjE)
    have "close_answer gl window (length t) j = 0" if "j < Suc k" for j
    proof (cases j)
      case 0
      with True show ?thesis by (simp add: close_answer_def)
    next
      case (Suc i)
      with that k1 have "close_answer gl window (length u) i = 0" by simp
      then have "close_answer gl window (length t) (Suc i) = 0"
        unfolding len close_answer_later .
      with Suc show ?thesis by simp
    qed
    then have a: "\<forall>j<Suc k. close_answer gl window (length t) j = 0"
      by simp
    have b: "close_answer gl window (length t) (Suc k) \<noteq> 0"
      using k2 unfolding len close_answer_later .
    have c: "t' = t @ iterations gl window (length t) (Suc k) @
        [Window (E_glfwWindowShouldClose window (close_answer gl window (length t) (Suc k)))]"
      using k3 unfolding len close_answer_later by (simp add: u_def)
    from a b c show ?thesis
      by (intro exI [of _ "Suc k"] conjI)
  qed
qed

lemma main_loop_never_closed:
  assumes "\<And>k. close_answer gl window (length t) k = 0"
  shows "main_loop gl window t = None"
proof (cases "main_loop gl window t")
  case None
  then show ?thesis .
next
  case (Some t')
  then have "\<exists>k. (\<forall>j<k. close_answer gl window (length t) j = 0) \<and>
       close_answer gl window (length t) k \<noteq> 0 \<and>
       t' = t @ iterations gl window (length t) k @
            [Window (E_glfwWindowShouldClose window (close_answer gl window (length t) k))]"
    by (rule main_loop_only_on_close)
  then obtain k where "close_answer gl window (length t) k \<noteq> 0"
    by (elim exE conjE)
  with assms show ?thesis by simp
qed

lemma main_loop_closed_later:
  "close_answer gl window (length t) k \<noteq> 0 \<Longrightarrow> \<exists>t'. main_loop gl window t = Some t'"
proof (induction k arbitrary: t)
  case 0
  then show ?case
    by (subst main_loop_step) (simp add: close_answer_def)
next
  case (Suc k)
  let ?q = "Window (E_glfwWindowShouldClose window (glfwWindowShouldClose_ret gl (length t) window))"
  let ?t = "t @ ?q # frame_events window"
  have len: "length ?t = length t + 6"
    by (simp add: length_frame_events)
  have "close_answer gl window (length ?t) k \<noteq> 0"
    using Suc.prems unfolding len close_answer_later .
  then have later: "\<exists>t'. main_loop gl window ?t = Some t'"
    by (rule Suc.IH)
  show ?case
  proof (cases "glfwWindowShouldClose_ret gl (length t) window = 0")
    case True
    with later show ?thesis
      by (subst main_loop_step) simp
  next
    case False
    then show ?thesis
      by (subst main_loop_step) simp
  qed
qed

lemma closure_reached_append:
  "closure_reached (xs @ ys) = (closure_reached xs \<or> closure_reached ys)"
  by (simp add: closure_reached_def)

lemma closure_reached_Cons:
  "closure_reached (e # xs) = (close_reported e \<or> closure_reached xs)"
  "closure_reached [] = False"
  by (simp_all add: closure_reached_def)


text \<open>
  \<open>ShaderProgram\<close> is left by an exception exactly when one of the two paths opens and
  cannot be read; the events before that hold no answer of the window.
\<close>

lemma ShaderProgram_thrown:
  assumes thrown: "ShaderProgram gl fs vf ff t0 = Inl (thrown, t)"
  shows "thrown = ios_failure \<and> (read_error fs vf \<or> read_error fs ff) \<and>
    (closure_reached t \<longleftrightarrow> closure_reached t0)"
proof (cases "istreambuf_string (fs vf)")
  case (Inl e)
  have e: "e = ios_failure"
    by (cases e) simp
  from Inl have unreadable: "read_error fs vf"
    unfolding e read_error_def by (simp only: istreambuf_string_cases)
  from ShaderProgram_vertex_read_fails [of fs vf e gl ff t0, OF Inl] thrown
  have "thrown = e \<and> (closure_reached t \<longleftrightarrow> closure_reached t0)"
    by (auto simp add: closure_reached_append closure_reached_Cons close_reported_def)
  with e unreadable show ?thesis
    by simp
next
  case vertex: (Inr vertex_code)
  show ?thesis
  proof (cases "istreambuf_string (fs ff)")
    case (Inl e)
    have e: "e = ios_failure"
      by (cases e) simp
    from Inl have unreadable: "read_error fs ff"
      unfolding e read_error_def by (simp only: istreambuf_string_cases)
    from ShaderProgram_fragment_read_fails [of fs vf vertex_code ff e gl t0, OF vertex Inl] thrown
    have "thrown = e \<and> (closure_reached t \<longleftrightarrow> closure_reached t0)"
      by (auto simp add: closure_reached_append closure_reached_Cons close_reported_def)
    with e unreadable show ?thesis
      by simp
  next
    case fragment: (Inr fragment_code)
    from ShaderProgram_run [of fs vf vertex_code ff fragment_code gl t0, OF vertex fragment]
    obtain pid t' where "ShaderProgram gl fs vf ff t0 = Inr (pid, t')"
      by (elim exE conjE)
    with thrown show ?thesis
      by simp
  qed
qed

lemma ShaderProgram_returns:
  "(\<exists>program_id t. ShaderProgram gl fs vf ff t0 = Inr (program_id, t)) \<longleftrightarrow>
   \<not> read_error fs vf \<and> \<not> read_error fs ff"
proof
  assume "\<exists>program_id t. ShaderProgram gl fs vf ff t0 = Inr (program_id, t)"
  then obtain program_id t where "ShaderProgram gl fs vf ff t0 = Inr (program_id, t)"
    by (elim exE)
  then have "\<exists>vid fid vertex_code fragment_code.
     istreambuf_string (fs vf) = Inr vertex_code \<and>
     istreambuf_string (fs ff) = Inr fragment_code \<and>
     shaders_created (drop (length t0) t) = [vid, fid] \<and>
     shaders_deleted (drop (length t0) t) = [vid, fid] \<and>
     programs_created (drop (length t0) t) = [program_id] \<and>
     shader_sources (drop (length t0) t) = [(vid, c_str vertex_code), (fid, c_str fragment_code)] \<and>
     (\<exists>before. t = before @ [Shader (E_glDeleteShader vid), Shader (E_glDeleteShader fid)])"
    by (rule ShaderProgram_readings)
  then have "(\<exists>code. istreambuf_string (fs vf) = Inr code) \<and> (\<exists>code. istreambuf_string (fs ff) = Inr code)"
    by blast
  then show "\<not> read_error fs vf \<and> \<not> read_error fs ff"
    by (simp add: read_error_def istreambuf_string_cases)
next
  assume "\<not> read_error fs vf \<and> \<not> read_error fs ff"
  then have "(\<exists>code. istreambuf_string (fs vf) = Inr code) \<and> (\<exists>code. istreambuf_string (fs ff) = Inr code)"
    by (simp add: read_error_def istreambuf_string_cases)
  then obtain vertex_code fragment_code where vertex: "istreambuf_string (fs vf) = Inr vertex_code"
    and fragment: "istreambuf_string (fs ff) = Inr fragment_code"
    by (elim exE conjE)
  from ShaderProgram_run [of fs vf vertex_code ff fragment_code gl t0, OF vertex fragment]
  obtain pid t' where "ShaderProgram gl fs vf ff t0 = Inr (pid, t')"
    by (elim exE conjE)
  then show "\<exists>program_id t. ShaderProgram gl fs vf ff t0 = Inr (program_id, t)"
    by (intro exI)
qed

subsection \<open>\<open>main\<close>\<close>

lemma events_before:
  "(6 :: nat) = Suc (Suc (Suc (Suc (Suc (Suc 0)))))"
  "(10 :: nat) = Suc (Suc (Suc (Suc (Suc (Suc (Suc (Suc (Suc (Suc 0)))))))))"
  by simp_all

lemmas window_defs =
  glfwInit_def glfwWindowHint_def glfwCreateWindow_def glfwMakeContextCurrent_def
  glfwTerminate_def set_glewExperimental_def glewInit_def glewIsSupported_def cerr_def

lemma main_without_glfw:
  "glfwInit_ret gl 0 = 0 \<Longrightarrow>
   main gl fs =
     Some (Exit EXIT_FAILURE, [Window (E_glfwInit 0), IO (E_cerr ''Failed to initialize GLFW!'')])"
  by (simp add: main_def window_defs)

lemma main_without_window:
  "glfwInit_ret gl 0 \<noteq> 0 \<Longrightarrow> glfwCreateWindow_ret gl 6 SIZE SIZE ''OpenGL'' = None \<Longrightarrow>
   \<exists>t. main gl fs = Some (Exit EXIT_FAILURE, t) \<and> \<not> closure_reached t"
  by (simp add: main_def Let_def window_defs events_before closure_reached_Cons
        closure_reached_append close_reported_def)

lemma main_without_gl33:
  "glfwInit_ret gl 0 \<noteq> 0 \<Longrightarrow> glfwCreateWindow_ret gl 6 SIZE SIZE ''OpenGL'' = Some window \<Longrightarrow>
   glewIsSupported_ret gl 10 ''GL_VERSION_3_3'' = 0 \<Longrightarrow>
   \<exists>t. main gl fs = Some (Exit EXIT_FAILURE, t) \<and> \<not> closure_reached t"
  by (simp add: main_def Let_def window_defs events_before closure_reached_Cons
        closure_reached_append close_reported_def)

lemma init_events_no_closure: "\<not> closure_reached (init_events gl window)"
  by (simp add: init_events_def closure_reached_Cons close_reported_def)

text \<open>
  After an initialisation that succeeds, \<open>ShaderProgram\<close> is called with the events of the
  initialisation. The exception that leaves it leaves \<open>main\<close>; where it returns, \<open>main\<close>
  goes on to the loop.
\<close>

lemma main_uncaught:
  "glfwInit_ret gl 0 \<noteq> 0 \<Longrightarrow> glfwCreateWindow_ret gl 6 SIZE SIZE ''OpenGL'' = Some window \<Longrightarrow>
   glewIsSupported_ret gl 10 ''GL_VERSION_3_3'' \<noteq> 0 \<Longrightarrow>
   ShaderProgram gl fs ''gl_texture.vert'' ''gl_texture.frag'' (init_events gl window) =
     Inl (thrown, t) \<Longrightarrow>
   main gl fs = Some (Uncaught thrown, t)"
  by (simp add: main_def Let_def glfwInit_def glfwWindowHint_def glfwCreateWindow_def
        glfwMakeContextCurrent_def set_glewExperimental_def glewInit_def glewIsSupported_def
        events_before init_events_def)

lemma main_enters_loop:
  "glfwInit_ret gl 0 \<noteq> 0 \<Longrightarrow> glfwCreateWindow_ret gl 6 SIZE SIZE ''OpenGL'' = Some window \<Longrightarrow>
   glewIsSupported_ret gl 10 ''GL_VERSION_3_3'' \<noteq> 0 \<Longrightarrow>
   ShaderProgram gl fs ''gl_texture.vert'' ''gl_texture.frag'' (init_events gl window) =
     Inr (program_id, t12) \<Longrightarrow>
   \<exists>t0. main gl fs =
     (case main_loop gl window t0 of None \<Rightarrow> None | Some t \<Rightarrow> Some (Exit EXIT_SUCCESS, glfwTerminate t))"
  by (simp add: main_def Let_def glfwInit_def glfwWindowHint_def glfwCreateWindow_def
        glfwMakeContextCurrent_def set_glewExperimental_def glewInit_def glewIsSupported_def
        events_before init_events_def split_beta)
     (rule exI, rule refl)

text \<open>
  So a run whose initialisation succeeds either is ended by the exception of a shader file
  that cannot be read, before any answer of the window, or reaches the loop.
\<close>

lemma main_after_init:
  assumes initialised: "\<not> init_failure gl"
  shows "(if read_error fs ''gl_texture.vert'' \<or> read_error fs ''gl_texture.frag''
          then \<exists>t. main gl fs = Some (Uncaught ios_failure, t) \<and> \<not> closure_reached t
          else \<exists>window t0. main gl fs =
            (case main_loop gl window t0 of
               None \<Rightarrow> None
             | Some t \<Rightarrow> Some (Exit EXIT_SUCCESS, glfwTerminate t)))"
proof -
  from initialised obtain window where init: "glfwInit_ret gl 0 \<noteq> 0"
    "glfwCreateWindow_ret gl 6 SIZE SIZE ''OpenGL'' = Some window"
    "glewIsSupported_ret gl 10 ''GL_VERSION_3_3'' \<noteq> 0"
    by (auto simp: init_failure_def)
  show ?thesis
  proof (cases "ShaderProgram gl fs ''gl_texture.vert'' ''gl_texture.frag'' (init_events gl window)")
    case (Inl left)
    obtain thrown t where left: "left = (thrown, t)"
      by (cases left)
    note thrown = Inl [unfolded left]
    from thrown have facts: "thrown = ios_failure \<and>
      (read_error fs ''gl_texture.vert'' \<or> read_error fs ''gl_texture.frag'') \<and>
      (closure_reached t \<longleftrightarrow> closure_reached (init_events gl window))"
      by (rule ShaderProgram_thrown)
    from init thrown have "main gl fs = Some (Uncaught thrown, t)"
      by (rule main_uncaught)
    with facts init_events_no_closure [of gl window] show ?thesis
      by auto
  next
    case (Inr right)
    obtain program_id t12 where right: "right = (program_id, t12)"
      by (cases right)
    note returned = Inr [unfolded right]
    then have "\<exists>program_id t. ShaderProgram gl fs ''gl_texture.vert'' ''gl_texture.frag''
        (init_events gl window) = Inr (program_id, t)"
      by (intro exI)
    then have readable: "\<not> read_error fs ''gl_texture.vert'' \<and> \<not> read_error fs ''gl_texture.frag''"
      by (simp add: ShaderProgram_returns)
    from init returned have "\<exists>t0. main gl fs =
      (case main_loop gl window t0 of None \<Rightarrow> None | Some t \<Rightarrow> Some (Exit EXIT_SUCCESS, glfwTerminate t))"
      by (rule main_enters_loop)
    then have "\<exists>window t0. main gl fs =
      (case main_loop gl window t0 of None \<Rightarrow> None | Some t \<Rightarrow> Some (Exit EXIT_SUCCESS, glfwTerminate t))"
      by (rule exI)
    with readable show ?thesis
      by simp
  qed
qed

section \<open>The claims\<close>



text \<open>
  Claim C2, as amended. \<open>LoadImage\<close> sizes its buffer with the \<open>unsigned int\<close> product
  \<open>width*height*3\<close>, which is \<open>width \<times> height \<times> 3\<close> modulo \<open>2 ^ 32\<close>: the buffer has exactly
  that many bytes, and exactly \<open>width \<times> height \<times> 3\<close> bytes whenever this number is below
  \<open>2 ^ 32\<close>. The one read asks for as many bytes as the buffer has and stores at most that
  many, so for every file, short or not, the read stays inside the buffer, whose length
  is unchanged when it is uploaded.
\<close>

theorem LoadImage_read_stays_in_buffer:
  "length (std_vector_char (unat (width * height * 3))) = unat (width * height * 3) \<and>
   unat (width * height * 3) = (unat width * unat height * 3) mod 2 ^ 32 \<and>
   (unat width * unat height * 3 < 2 ^ 32 \<longrightarrow>
      unat (width * height * 3) = unat width * unat height * 3) \<and>
   read_requests (drop (length t0) (snd (LoadImage gl fs image_file width height t0))) =
     [(unat (width * height * 3), length (extracted (fs image_file) (unat (width * height * 3))))] \<and>
   length (extracted (fs image_file) (unat (width * height * 3))) \<le> unat (width * height * 3) \<and>
   map length (texture_uploads (drop (length t0) (snd (LoadImage gl fs image_file width height t0)))) =
     [unat (width * height * 3)]"
proof (intro conjI impI)
  show "length (std_vector_char (unat (width * height * 3))) = unat (width * height * 3)"
    by (simp add: std_vector_char_def)
  show mod: "unat (width * height * 3) = (unat width * unat height * 3) mod 2 ^ 32"
    by (rule unat_size_product)
  show "unat (width * height * 3) = unat width * unat height * 3"
    if "unat width * unat height * 3 < 2 ^ 32"
    using that by (simp only: mod mod_less)
  show "read_requests (drop (length t0) (snd (LoadImage gl fs image_file width height t0))) =
     [(unat (width * height * 3), length (extracted (fs image_file) (unat (width * height * 3))))]"
    by (simp add: LoadImage_events readings_Cons reading_defs)
  show within: "length (extracted (fs image_file) (unat (width * height * 3))) \<le> unat (width * height * 3)"
    by (rule length_extracted)
  show "map length (texture_uploads (drop (length t0) (snd (LoadImage gl fs image_file width height t0)))) =
     [unat (width * height * 3)]"
    using within by (simp add: LoadImage_events readings_Cons reading_defs)
qed

theorem LoadImage_read_stays_in_buffer_witness:
  "unat (2 :: 32 word) * unat (1 :: 32 word) * 3 < (2 :: nat) ^ 32 \<and>
   unat (2 * 1 * 3 :: 32 word) = unat (2 :: 32 word) * unat (1 :: 32 word) * 3 \<and>
   read_requests (snd (LoadImage env_ok short_image ''lena.rgb'' 2 1 [])) = [(6, 3)] \<and>
   map length (texture_uploads (snd (LoadImage env_ok short_image ''lena.rgb'' 2 1 []))) = [6]"
proof -
  have small: "unat (2 :: 32 word) * unat (1 :: 32 word) * 3 < (2 :: nat) ^ 32"
    by simp
  have size: "unat (2 * 1 * 3 :: 32 word) = 6"
    by simp
  have got: "length (extracted (short_image ''lena.rgb'') 6) = 3"
    by (simp add: short_image_def extracted_def)
  note inst = LoadImage_read_stays_in_buffer [of 2 1 "[]" env_ok short_image "''lena.rgb''",
      unfolded size got list.size drop_0]
  from inst small have exact: "(6 :: nat) = unat (2 :: 32 word) * unat (1 :: 32 word) * 3"
    by blast
  from inst have asked: "read_requests (snd (LoadImage env_ok short_image ''lena.rgb'' 2 1 [])) = [(6, 3)]"
    by (elim conjE)
  from inst have uploaded:
    "map length (texture_uploads (snd (LoadImage env_ok short_image ''lena.rgb'' 2 1 []))) = [6]"
    by (elim conjE)
  from small exact asked uploaded show ?thesis
    unfolding size by (intro conjI)
qed

theorem LoadImage_buffer_size_counterexample:
  "map length (texture_uploads (snd (LoadImage env_ok no_files ''lena.rgb'' 65536 65536 []))) = [0] \<and>
   map length (texture_uploads (snd (LoadImage env_ok no_files ''lena.rgb'' 65536 65536 []))) \<noteq>
     [unat (65536 :: 32 word) * unat (65536 :: 32 word) * 3]"
  by (simp add: LoadImage_events readings_Cons reading_defs extracted_def no_files_def)

text \<open>
  Claim C3, as amended. For every file path and every width and height whose product
  \<open>width \<times> height \<times> 3\<close> is below \<open>2 ^ 32\<close>, \<open>LoadImage\<close> makes exactly these calls, in this
  order: it generates one texture name and binds it, sets the magnification and the
  minification filter to linear, opens the file in binary mode, asks the stream once for
  \<open>width \<times> height \<times> 3\<close> bytes, closes the stream, and uploads its buffer of
  \<open>width \<times> height \<times> 3\<close> bytes as an RGB texture of unsigned bytes at level 0; it returns the
  texture name. The buffer starts with the \<open>k\<close> bytes the read delivered, which are the first
  bytes of the file as they are (no header is skipped or checked), and is zero after them; a
  short or missing file changes no call and nothing is printed.
\<close>

theorem LoadImage_call_sequence:
  "unat width * unat height * 3 < 2 ^ 32 \<longrightarrow>
     (\<exists>texture_id k.
        LoadImage gl fs image_file width height t0 =
          (texture_id,
           t0 @ [Texture (E_glGenTextures 1 texture_id),
                 Texture (E_glBindTexture GL_TEXTURE_2D texture_id),
                 Texture (E_glTexParameteri GL_TEXTURE_2D GL_TEXTURE_MAG_FILTER GL_LINEAR),
                 Texture (E_glTexParameteri GL_TEXTURE_2D GL_TEXTURE_MIN_FILTER GL_LINEAR),
                 IO (E_ifstream image_file ios_in_binary),
                 IO (E_read image_file (unat width * unat height * 3) k),
                 IO (E_close image_file),
                 Texture (E_glTexImage2D GL_TEXTURE_2D 0 GL_RGB width height 0 GL_RGB GL_UNSIGNED_BYTE
                   (extracted (fs image_file) (unat width * unat height * 3) @
                    replicate (unat width * unat height * 3 - k) (CHR 0x00)))]) \<and>
        k = length (extracted (fs image_file) (unat width * unat height * 3)) \<and>
        k \<le> unat width * unat height * 3 \<and>
        (\<forall>bytes. fs image_file = Some (Readable bytes) \<longrightarrow>
           extracted (fs image_file) (unat width * unat height * 3) =
             take (unat width * unat height * 3) bytes) \<and>
        diagnostics (drop (length t0) (snd (LoadImage gl fs image_file width height t0))) = [])"
proof
  assume "unat width * unat height * 3 < 2 ^ 32"
  then have exact: "unat (width * height * 3) = unat width * unat height * 3"
    by (simp only: unat_size_product mod_less)
  have calls: "LoadImage gl fs image_file width height t0 =
     (GenTextures_out gl (length t0),
      t0 @ [Texture (E_glGenTextures 1 (GenTextures_out gl (length t0))),
            Texture (E_glBindTexture GL_TEXTURE_2D (GenTextures_out gl (length t0))),
            Texture (E_glTexParameteri GL_TEXTURE_2D GL_TEXTURE_MAG_FILTER GL_LINEAR),
            Texture (E_glTexParameteri GL_TEXTURE_2D GL_TEXTURE_MIN_FILTER GL_LINEAR),
            IO (E_ifstream image_file ios_in_binary),
            IO (E_read image_file (unat width * unat height * 3)
                  (length (extracted (fs image_file) (unat width * unat height * 3)))),
            IO (E_close image_file),
            Texture (E_glTexImage2D GL_TEXTURE_2D 0 GL_RGB width height 0 GL_RGB GL_UNSIGNED_BYTE
              (extracted (fs image_file) (unat width * unat height * 3) @
               replicate (unat width * unat height * 3 -
                  length (extracted (fs image_file) (unat width * unat height * 3))) (CHR 0x00)))])"
    unfolding exact [symmetric] by (rule LoadImage_events)
  have within: "length (extracted (fs image_file) (unat width * unat height * 3)) \<le>
      unat width * unat height * 3"
    by (rule length_extracted)
  have start: "\<forall>bytes. fs image_file = Some (Readable bytes) \<longrightarrow>
      extracted (fs image_file) (unat width * unat height * 3) =
        take (unat width * unat height * 3) bytes"
    by (simp add: extracted_def)
  have quiet: "diagnostics (drop (length t0) (snd (LoadImage gl fs image_file width height t0))) = []"
    by (simp add: LoadImage_events readings_Cons reading_defs)
  show "\<exists>texture_id k.
        LoadImage gl fs image_file width height t0 =
          (texture_id,
           t0 @ [Texture (E_glGenTextures 1 texture_id),
                 Texture (E_glBindTexture GL_TEXTURE_2D texture_id),
                 Texture (E_glTexParameteri GL_TEXTURE_2D GL_TEXTURE_MAG_FILTER GL_LINEAR),
                 Texture (E_glTexParameteri GL_TEXTURE_2D GL_TEXTURE_MIN_FILTER GL_LINEAR),
                 IO (E_ifstream image_file ios_in_binary),
                 IO (E_read image_file (unat width * unat height * 3) k),
                 IO (E_close image_file),
                 Texture (E_glTexImage2D GL_TEXTURE_2D 0 GL_RGB width height 0 GL_RGB GL_UNSIGNED_BYTE
                   (extracted (fs image_file) (unat width * unat height * 3) @
                    replicate (unat width * unat height * 3 - k) (CHR 0x00)))]) \<and>
        k = length (extracted (fs image_file) (unat width * unat height * 3)) \<and>
        k \<le> unat width * unat height * 3 \<and>
        (\<forall>bytes. fs image_file = Some (Readable bytes) \<longrightarrow>
           extracted (fs image_file) (unat width * unat height * 3) =
             take (unat width * unat height * 3) bytes) \<and>
        diagnostics (drop (length t0) (snd (LoadImage gl fs image_file width height t0))) = []"
    apply (rule exI [of _ "GenTextures_out gl (length t0)"])
    apply (rule exI [of _ "length (extracted (fs image_file) (unat width * unat height * 3))"])
    apply (intro conjI)
        apply (rule calls)
       apply (rule refl)
      apply (rule within)
     apply (rule start)
    apply (rule quiet)
    done
qed

theorem LoadImage_call_sequence_witness:
  "unat (2 :: 32 word) * unat (1 :: 32 word) * 3 < (2 :: nat) ^ 32 \<and>
   short_image ''lena.rgb'' = Some (Readable ''abc'') \<and>
   (\<exists>texture_id.
     LoadImage env_ok short_image ''lena.rgb'' 2 1 [] =
       (texture_id,
        [Texture (E_glGenTextures 1 texture_id),
         Texture (E_glBindTexture GL_TEXTURE_2D texture_id),
         Texture (E_glTexParameteri GL_TEXTURE_2D GL_TEXTURE_MAG_FILTER GL_LINEAR),
         Texture (E_glTexParameteri GL_TEXTURE_2D GL_TEXTURE_MIN_FILTER GL_LINEAR),
         IO (E_ifstream ''lena.rgb'' ios_in_binary),
         IO (E_read ''lena.rgb'' 6 3),
         IO (E_close ''lena.rgb''),
         Texture (E_glTexImage2D GL_TEXTURE_2D 0 GL_RGB 2 1 0 GL_RGB GL_UNSIGNED_BYTE
           [CHR ''a'', CHR ''b'', CHR ''c'', CHR 0x00, CHR 0x00, CHR 0x00])]))"
proof -
  have small: "unat (2 :: 32 word) * unat (1 :: 32 word) * 3 < (2 :: nat) ^ 32"
    by simp
  have present: "short_image ''lena.rgb'' = Some (Readable ''abc'')"
    by (simp add: short_image_def)
  have size: "unat (2 :: 32 word) * unat (1 :: 32 word) * 3 = 6"
    by simp
  have got: "extracted (short_image ''lena.rgb'') 6 = ''abc''"
    by (simp add: present extracted_def)
  have zeros: "replicate (6 - length ''abc'') (CHR 0x00) = [CHR 0x00, CHR 0x00, CHR 0x00]"
    by code_simp
  from small LoadImage_call_sequence [of 2 1 env_ok short_image "''lena.rgb''" "[]"]
  have "\<exists>texture_id k.
        LoadImage env_ok short_image ''lena.rgb'' 2 1 [] =
          (texture_id,
           [] @ [Texture (E_glGenTextures 1 texture_id),
                 Texture (E_glBindTexture GL_TEXTURE_2D texture_id),
                 Texture (E_glTexParameteri GL_TEXTURE_2D GL_TEXTURE_MAG_FILTER GL_LINEAR),
                 Texture (E_glTexParameteri GL_TEXTURE_2D GL_TEXTURE_MIN_FILTER GL_LINEAR),
                 IO (E_ifstream ''lena.rgb'' ios_in_binary),
                 IO (E_read ''lena.rgb'' (unat (2 :: 32 word) * unat (1 :: 32 word) * 3) k),
                 IO (E_close ''lena.rgb''),
                 Texture (E_glTexImage2D GL_TEXTURE_2D 0 GL_RGB 2 1 0 GL_RGB GL_UNSIGNED_BYTE
                   (extracted (short_image ''lena.rgb'') (unat (2 :: 32 word) * unat (1 :: 32 word) * 3) @
                    replicate (unat (2 :: 32 word) * unat (1 :: 32 word) * 3 - k) (CHR 0x00)))]) \<and>
        k = length (extracted (short_image ''lena.rgb'') (unat (2 :: 32 word) * unat (1 :: 32 word) * 3)) \<and>
        k \<le> unat (2 :: 32 word) * unat (1 :: 32 word) * 3 \<and>
        (\<forall>bytes. short_image ''lena.rgb'' = Some (Readable bytes) \<longrightarrow>
           extracted (short_image ''lena.rgb'') (unat (2 :: 32 word) * unat (1 :: 32 word) * 3) =
             take (unat (2 :: 32 word) * unat (1 :: 32 word) * 3) bytes) \<and>
        diagnostics (drop (length ([] :: trace)) (snd (LoadImage env_ok short_image ''lena.rgb'' 2 1 []))) = []"
    by (rule rev_mp)
  then obtain texture_id k where calls:
    "LoadImage env_ok short_image ''lena.rgb'' 2 1 [] =
          (texture_id,
           [] @ [Texture (E_glGenTextures 1 texture_id),
                 Texture (E_glBindTexture GL_TEXTURE_2D texture_id),
                 Texture (E_glTexParameteri GL_TEXTURE_2D GL_TEXTURE_MAG_FILTER GL_LINEAR),
                 Texture (E_glTexParameteri GL_TEXTURE_2D GL_TEXTURE_MIN_FILTER GL_LINEAR),
                 IO (E_ifstream ''lena.rgb'' ios_in_binary),
                 IO (E_read ''lena.rgb'' (unat (2 :: 32 word) * unat (1 :: 32 word) * 3) k),
                 IO (E_close ''lena.rgb''),
                 Texture (E_glTexImage2D GL_TEXTURE_2D 0 GL_RGB 2 1 0 GL_RGB GL_UNSIGNED_BYTE
                   (extracted (short_image ''lena.rgb'') (unat (2 :: 32 word) * unat (1 :: 32 word) * 3) @
                    replicate (unat (2 :: 32 word) * unat (1 :: 32 word) * 3 - k) (CHR 0x00)))])"
    and k: "k = length (extracted (short_image ''lena.rgb'') (unat (2 :: 32 word) * unat (1 :: 32 word) * 3))"
    by (elim exE conjE)
  have k3: "k = 3"
    unfolding k size got by simp
  have buffer: "''abc'' @ [CHR 0x00, CHR 0x00, CHR 0x00] =
      [CHR ''a'', CHR ''b'', CHR ''c'', CHR 0x00, CHR 0x00, CHR 0x00]"
    by simp
  have three: "(6 :: nat) - 3 = 6 - length ''abc''"
    by simp
  note calls [unfolded size got k3 three zeros buffer append_Nil]
  then have "\<exists>texture_id.
     LoadImage env_ok short_image ''lena.rgb'' 2 1 [] =
       (texture_id,
        [Texture (E_glGenTextures 1 texture_id),
         Texture (E_glBindTexture GL_TEXTURE_2D texture_id),
         Texture (E_glTexParameteri GL_TEXTURE_2D GL_TEXTURE_MAG_FILTER GL_LINEAR),
         Texture (E_glTexParameteri GL_TEXTURE_2D GL_TEXTURE_MIN_FILTER GL_LINEAR),
         IO (E_ifstream ''lena.rgb'' ios_in_binary),
         IO (E_read ''lena.rgb'' 6 3),
         IO (E_close ''lena.rgb''),
         Texture (E_glTexImage2D GL_TEXTURE_2D 0 GL_RGB 2 1 0 GL_RGB GL_UNSIGNED_BYTE
           [CHR ''a'', CHR ''b'', CHR ''c'', CHR 0x00, CHR 0x00, CHR 0x00])])"
    by (intro exI)
  with small present show ?thesis
    by (intro conjI)
qed

theorem LoadImage_read_size_counterexample:
  "map fst (read_requests (snd (LoadImage env_ok short_image ''lena.rgb'' 1431655766 1 []))) = [2] \<and>
   map fst (read_requests (snd (LoadImage env_ok short_image ''lena.rgb'' 1431655766 1 []))) \<noteq>
     [unat (1431655766 :: 32 word) * unat (1 :: 32 word) * 3]"
  by (simp add: LoadImage_events readings_Cons reading_defs)

text \<open>
  Claim C4. \<open>main\<close> returns \<open>EXIT_FAILURE\<close>, which is not zero, when GLFW does not
  initialise, when no window is created, or when GLEW reports that OpenGL 3.3 is not
  supported; no close request was reported then. Otherwise the only value it can return is
  \<open>EXIT_SUCCESS\<close>, which is zero, and it returns it after a \<open>glfwWindowShouldClose\<close> that
  reported the close request. So the exit code of a run that ends is zero exactly when the
  run reached the close request. A run that is ended by an uncaught exception returns no
  exit code and has reached no close request; this happens exactly when the initialisation
  succeeds and a shader file fails on reading. With the initialisation succeeding and the
  shader files not failing, \<open>main\<close> does return once the window reports the request from
  some moment on, and it never returns when the window never reports it.
\<close>

theorem main_exit_code:
  "EXIT_SUCCESS = 0 \<and> EXIT_FAILURE \<noteq> 0 \<and>
   (init_failure gl \<longrightarrow> (\<exists>t. main gl fs = Some (Exit EXIT_FAILURE, t) \<and> \<not> closure_reached t)) \<and>
   (\<not> init_failure gl \<longrightarrow>
      (\<forall>code t. main gl fs = Some (Exit code, t) \<longrightarrow> code = EXIT_SUCCESS \<and> closure_reached t)) \<and>
   (\<forall>code t. main gl fs = Some (Exit code, t) \<longrightarrow> (code = EXIT_SUCCESS \<longleftrightarrow> closure_reached t)) \<and>
   (\<forall>thrown t. main gl fs = Some (Uncaught thrown, t) \<longrightarrow>
      \<not> closure_reached t \<and> \<not> init_failure gl \<and>
      (read_error fs ''gl_texture.vert'' \<or> read_error fs ''gl_texture.frag'')) \<and>
   (\<not> init_failure gl \<and> (read_error fs ''gl_texture.vert'' \<or> read_error fs ''gl_texture.frag'') \<longrightarrow>
      (\<exists>t. main gl fs = Some (Uncaught ios_failure, t))) \<and>
   (\<not> init_failure gl \<and> \<not> read_error fs ''gl_texture.vert'' \<and> \<not> read_error fs ''gl_texture.frag'' \<and>
    (\<exists>m. \<forall>n\<ge>m. \<forall>window. glfwWindowShouldClose_ret gl n window \<noteq> 0) \<longrightarrow>
      (\<exists>t. main gl fs = Some (Exit EXIT_SUCCESS, t))) \<and>
   (\<not> init_failure gl \<and> \<not> read_error fs ''gl_texture.vert'' \<and> \<not> read_error fs ''gl_texture.frag'' \<and>
    (\<forall>n window. glfwWindowShouldClose_ret gl n window = 0) \<longrightarrow>
      main gl fs = None)"
proof -
  have codes: "EXIT_SUCCESS = 0" "EXIT_FAILURE \<noteq> 0" "EXIT_FAILURE \<noteq> EXIT_SUCCESS"
    by (simp_all add: EXIT_SUCCESS_def EXIT_FAILURE_def)
  have failure: "\<exists>t. main gl fs = Some (Exit EXIT_FAILURE, t) \<and> \<not> closure_reached t"
    if "init_failure gl"
  proof (cases "glfwInit_ret gl 0 = 0")
    case True
    then have "main gl fs =
        Some (Exit EXIT_FAILURE, [Window (E_glfwInit 0), IO (E_cerr ''Failed to initialize GLFW!'')])"
      by (rule main_without_glfw)
    then show ?thesis
      by (simp add: closure_reached_Cons close_reported_def)
  next
    case initialised: False
    show ?thesis
    proof (cases "glfwCreateWindow_ret gl 6 SIZE SIZE ''OpenGL''")
      case None
      with initialised show ?thesis
        by (rule main_without_window)
    next
      case (Some window)
      with that initialised have "glewIsSupported_ret gl 10 ''GL_VERSION_3_3'' = 0"
        by (simp add: init_failure_def)
      with initialised Some show ?thesis
        by (rule main_without_gl33)
    qed
  qed
  have thrown: "\<exists>t. main gl fs = Some (Uncaught ios_failure, t) \<and> \<not> closure_reached t"
    if "\<not> init_failure gl" "read_error fs ''gl_texture.vert'' \<or> read_error fs ''gl_texture.frag''"
    using main_after_init [OF that(1), of fs] that(2) by simp
  have running: "\<exists>window t0. main gl fs =
      (case main_loop gl window t0 of None \<Rightarrow> None | Some t \<Rightarrow> Some (Exit EXIT_SUCCESS, glfwTerminate t))"
    if "\<not> init_failure gl" "\<not> read_error fs ''gl_texture.vert''" "\<not> read_error fs ''gl_texture.frag''"
    using main_after_init [OF that(1), of fs] that(2,3) by simp
  have looping: "\<exists>window t0. main gl fs =
      (case main_loop gl window t0 of None \<Rightarrow> None | Some t \<Rightarrow> Some (Exit EXIT_SUCCESS, glfwTerminate t))"
    if "\<not> init_failure gl" "main gl fs = Some (Exit code, t)" for code t
  proof (cases "read_error fs ''gl_texture.vert'' \<or> read_error fs ''gl_texture.frag''")
    case True
    with that(1) have "\<exists>t. main gl fs = Some (Uncaught ios_failure, t) \<and> \<not> closure_reached t"
      by (rule thrown)
    with that(2) show ?thesis
      by auto
  next
    case False
    with that(1) show ?thesis
      by (intro running) simp_all
  qed
  have success: "code = EXIT_SUCCESS \<and> closure_reached t"
    if "\<not> init_failure gl" "main gl fs = Some (Exit code, t)" for code t
  proof -
    from looping [OF that] obtain window t0 where eq: "main gl fs =
      (case main_loop gl window t0 of None \<Rightarrow> None | Some t \<Rightarrow> Some (Exit EXIT_SUCCESS, glfwTerminate t))"
      by (elim exE)
    with that(2) obtain t' where loop: "main_loop gl window t0 = Some t'"
      and code: "code = EXIT_SUCCESS" and t: "t = glfwTerminate t'"
      by (cases "main_loop gl window t0") simp_all
    from loop have "\<exists>k. (\<forall>j<k. close_answer gl window (length t0) j = 0) \<and>
       close_answer gl window (length t0) k \<noteq> 0 \<and>
       t' = t0 @ iterations gl window (length t0) k @
            [Window (E_glfwWindowShouldClose window (close_answer gl window (length t0) k))]"
      by (rule main_loop_only_on_close)
    then obtain k where "close_answer gl window (length t0) k \<noteq> 0"
      and "t' = t0 @ iterations gl window (length t0) k @
            [Window (E_glfwWindowShouldClose window (close_answer gl window (length t0) k))]"
      by (elim exE conjE)
    then have "closure_reached t'"
      by (simp add: closure_reached_append closure_reached_Cons close_reported_def)
    with code t show ?thesis
      by (simp add: glfwTerminate_def closure_reached_append)
  qed
  have exactly: "code = EXIT_SUCCESS \<longleftrightarrow> closure_reached t"
    if "main gl fs = Some (Exit code, t)" for code t
  proof (cases "init_failure gl")
    case True
    then obtain t' where "main gl fs = Some (Exit EXIT_FAILURE, t')" "\<not> closure_reached t'"
      using failure by blast
    with that codes(3) show ?thesis by simp
  next
    case False
    from success [OF False that] show ?thesis by simp
  qed
  have uncaught: "\<not> closure_reached t \<and> \<not> init_failure gl \<and>
      (read_error fs ''gl_texture.vert'' \<or> read_error fs ''gl_texture.frag'')"
    if "main gl fs = Some (Uncaught thrown, t)" for thrown t
  proof (cases "init_failure gl")
    case True
    then obtain t' where "main gl fs = Some (Exit EXIT_FAILURE, t')"
      using failure by blast
    with that show ?thesis by simp
  next
    case initialised: False
    show ?thesis
    proof (cases "read_error fs ''gl_texture.vert'' \<or> read_error fs ''gl_texture.frag''")
      case True
      with initialised obtain t' where "main gl fs = Some (Uncaught ios_failure, t')"
        "\<not> closure_reached t'"
        using thrown by blast
      with that initialised True show ?thesis by simp
    next
      case False
      with initialised obtain window t0 where "main gl fs =
      (case main_loop gl window t0 of None \<Rightarrow> None | Some t \<Rightarrow> Some (Exit EXIT_SUCCESS, glfwTerminate t))"
        using running by blast
      with that show ?thesis
        by (cases "main_loop gl window t0") simp_all
    qed
  qed
  have returns: "\<exists>t. main gl fs = Some (Exit EXIT_SUCCESS, t)"
    if "\<not> init_failure gl" "\<not> read_error fs ''gl_texture.vert''" "\<not> read_error fs ''gl_texture.frag''"
      "\<forall>n\<ge>m. \<forall>window. glfwWindowShouldClose_ret gl n window \<noteq> 0" for m
  proof -
    from running [OF that(1,2,3)] obtain window t0 where eq: "main gl fs =
      (case main_loop gl window t0 of None \<Rightarrow> None | Some t \<Rightarrow> Some (Exit EXIT_SUCCESS, glfwTerminate t))"
      by (elim exE)
    have "m \<le> length t0 + 6 * m"
      by simp
    with that(4) have "close_answer gl window (length t0) m \<noteq> 0"
      unfolding close_answer_def by blast
    then have "\<exists>t'. main_loop gl window t0 = Some t'"
      by (rule main_loop_closed_later)
    then obtain t' where "main_loop gl window t0 = Some t'" ..
    with eq show ?thesis by simp
  qed
  have forever: "main gl fs = None"
    if "\<not> init_failure gl" "\<not> read_error fs ''gl_texture.vert''" "\<not> read_error fs ''gl_texture.frag''"
      "\<forall>n window. glfwWindowShouldClose_ret gl n window = 0"
  proof -
    from running [OF that(1,2,3)] obtain window t0 where eq: "main gl fs =
      (case main_loop gl window t0 of None \<Rightarrow> None | Some t \<Rightarrow> Some (Exit EXIT_SUCCESS, glfwTerminate t))"
      by (elim exE)
    from that(4) have "\<And>k. close_answer gl window (length t0) k = 0"
      by (simp add: close_answer_def)
    then have "main_loop gl window t0 = None"
      by (rule main_loop_never_closed)
    with eq show ?thesis by simp
  qed
  have aborted: "\<exists>t. main gl fs = Some (Uncaught ios_failure, t)"
    if "\<not> init_failure gl" "read_error fs ''gl_texture.vert'' \<or> read_error fs ''gl_texture.frag''"
    using thrown [OF that] by blast
  show ?thesis
  proof (intro conjI impI allI)
    show "EXIT_SUCCESS = 0" "EXIT_FAILURE \<noteq> 0"
      by (rule codes)+
    show "\<exists>t. main gl fs = Some (Exit EXIT_FAILURE, t) \<and> \<not> closure_reached t" if "init_failure gl"
      using that by (rule failure)
    show "code = EXIT_SUCCESS" "closure_reached t"
      if "\<not> init_failure gl" "main gl fs = Some (Exit code, t)" for code t
      using success [OF that] by simp_all
    show "code = EXIT_SUCCESS \<longleftrightarrow> closure_reached t" if "main gl fs = Some (Exit code, t)" for code t
      using that by (rule exactly)
    show "\<not> closure_reached t" "\<not> init_failure gl"
      "read_error fs ''gl_texture.vert'' \<or> read_error fs ''gl_texture.frag''"
      if "main gl fs = Some (Uncaught thrown, t)" for thrown t
      using uncaught [OF that] by simp_all
    show "\<exists>t. main gl fs = Some (Uncaught ios_failure, t)"
      if "\<not> init_failure gl \<and> (read_error fs ''gl_texture.vert'' \<or> read_error fs ''gl_texture.frag'')"
      using that aborted by blast
    show "\<exists>t. main gl fs = Some (Exit EXIT_SUCCESS, t)"
      if "\<not> init_failure gl \<and> \<not> read_error fs ''gl_texture.vert'' \<and> \<not> read_error fs ''gl_texture.frag'' \<and>
        (\<exists>m. \<forall>n\<ge>m. \<forall>window. glfwWindowShouldClose_ret gl n window \<noteq> 0)"
      using that returns by blast
    show "main gl fs = None"
      if "\<not> init_failure gl \<and> \<not> read_error fs ''gl_texture.vert'' \<and> \<not> read_error fs ''gl_texture.frag'' \<and>
        (\<forall>n window. glfwWindowShouldClose_ret gl n window = 0)"
      using that forever by blast
  qed
qed

theorem main_exit_code_witness:
  "init_failure env_no_glfw \<and> init_failure env_no_window \<and> init_failure env_no_gl33 \<and>
   (\<exists>t. main env_no_glfw no_files = Some (Exit EXIT_FAILURE, t) \<and> \<not> closure_reached t) \<and>
   (\<exists>t. main env_no_window no_files = Some (Exit EXIT_FAILURE, t) \<and> \<not> closure_reached t) \<and>
   (\<exists>t. main env_no_gl33 no_files = Some (Exit EXIT_FAILURE, t) \<and> \<not> closure_reached t) \<and>
   \<not> init_failure env_ok \<and>
   \<not> read_error no_files ''gl_texture.vert'' \<and> \<not> read_error no_files ''gl_texture.frag'' \<and>
   (\<exists>t. main env_ok no_files = Some (Exit EXIT_SUCCESS, t) \<and> closure_reached t) \<and>
   \<not> init_failure env_never_closed \<and>
   main env_never_closed no_files = None \<and>
   read_error vertex_is_directory ''gl_texture.vert'' \<and>
   (\<exists>t. main env_ok vertex_is_directory = Some (Uncaught ios_failure, t) \<and> \<not> closure_reached t)"
proof -
  have failing: "init_failure env_no_glfw" "init_failure env_no_window" "init_failure env_no_gl33"
    by (simp_all add: init_failure_def env_no_glfw_def env_no_window_def env_no_gl33_def env_ok_def)
  have fine: "\<not> init_failure env_ok" "\<not> init_failure env_never_closed"
    by (simp_all add: init_failure_def env_never_closed_def env_ok_def)
  have readable: "\<not> read_error no_files ''gl_texture.vert''" "\<not> read_error no_files ''gl_texture.frag''"
    by (simp_all add: read_error_def no_files_def)
  have unreadable: "read_error vertex_is_directory ''gl_texture.vert''"
    by (simp add: read_error_def vertex_is_directory_def)
  have closes: "\<exists>m. \<forall>n\<ge>m. \<forall>window. glfwWindowShouldClose_ret env_ok n window \<noteq> 0"
    by (rule exI [of _ 100]) (simp add: env_ok_def)
  have never: "\<forall>n window. glfwWindowShouldClose_ret env_never_closed n window = 0"
    by (simp add: env_never_closed_def env_ok_def)
  from failing(1) main_exit_code [of env_no_glfw no_files]
  have a: "\<exists>t. main env_no_glfw no_files = Some (Exit EXIT_FAILURE, t) \<and> \<not> closure_reached t"
    by blast
  from failing(2) main_exit_code [of env_no_window no_files]
  have b: "\<exists>t. main env_no_window no_files = Some (Exit EXIT_FAILURE, t) \<and> \<not> closure_reached t"
    by blast
  from failing(3) main_exit_code [of env_no_gl33 no_files]
  have c: "\<exists>t. main env_no_gl33 no_files = Some (Exit EXIT_FAILURE, t) \<and> \<not> closure_reached t"
    by blast
  from fine(1) readable closes main_exit_code [of env_ok no_files]
  have d: "\<exists>t. main env_ok no_files = Some (Exit EXIT_SUCCESS, t) \<and> closure_reached t"
    by blast
  from fine(2) readable never main_exit_code [of env_never_closed no_files]
  have e: "main env_never_closed no_files = None"
    by blast
  from fine(1) unreadable main_exit_code [of env_ok vertex_is_directory]
  have f: "\<exists>t. main env_ok vertex_is_directory = Some (Uncaught ios_failure, t) \<and> \<not> closure_reached t"
    by blast
  from failing fine readable unreadable a b c d e f show ?thesis
    by (intro conjI)
qed

text \<open>
  Claim C5. For every program handle and every answer of the driver, the first buffer
  \<open>InitializeGeometry\<close> uploads holds eight floats, \<open>8 * sizeof(GLfloat)\<close> bytes, read two
  per vertex: the four vertices \<open>(1, 1)\<close>, \<open>(-1, 1)\<close>, \<open>(1, -1)\<close>, \<open>(-1, -1)\<close>, which are
  the corners of the square \<open>[-1, 1] \<times> [-1, 1]\<close>. The draw call of the loop body draws a
  triangle strip of as many vertices as the buffer holds, starting at the first, and the
  triangles of that strip cover the whole square. Neither function takes the size of the
  texture.
\<close>

theorem quad_covers_the_viewport:
  "buffer_uploads (drop (length t0) (InitializeGeometry gl program_id t0)) =
     [(8 * sizeof_GLfloat, [1, 1, -1, 1, 1, -1, -1, -1]),
      (8 * sizeof_GLfloat, [1, 0, 0, 0, 1, 1, 0, 1])] \<and>
   map snd (attrib_pointers (drop (length t0) (InitializeGeometry gl program_id t0))) = [2, 2] \<and>
   position_vertices (drop (length t0) (InitializeGeometry gl program_id t0)) =
     [(1, 1), (-1, 1), (1, -1), (-1, -1)] \<and>
   set (position_vertices (drop (length t0) (InitializeGeometry gl program_id t0))) =
     {-1, 1} \<times> {-1, 1} \<and>
   draw_calls (drop (length t) (loop_body window t)) =
     [(GL_TRIANGLE_STRIP, 0,
       length (position_vertices (drop (length t0) (InitializeGeometry gl program_id t0))))] \<and>
   (\<forall>x y. -1 \<le> x \<and> x \<le> 1 \<and> -1 \<le> y \<and> y \<le> 1 \<longrightarrow>
      list_ex (in_triangle (x, y))
        (strip_triangles (position_vertices (drop (length t0) (InitializeGeometry gl program_id t0)))))"
proof -
  have uploads: "buffer_uploads (drop (length t0) (InitializeGeometry gl program_id t0)) =
     [(32, [1, 1, -1, 1, 1, -1, -1, -1]), (32, [1, 0, 0, 0, 1, 1, 0, 1])]"
    by (simp add: InitializeGeometry_events buffer_uploads_def buffer_data_def)
  have pointers: "map snd (attrib_pointers (drop (length t0) (InitializeGeometry gl program_id t0))) = [2, 2]"
    by (simp add: InitializeGeometry_events attrib_pointers_def attrib_pointer_def)
  have vertices: "position_vertices (drop (length t0) (InitializeGeometry gl program_id t0)) =
     [(1, 1), (-1, 1), (1, -1), (-1, -1)]"
    by (simp add: position_vertices_def uploads)
  have draws: "draw_calls (drop (length t) (loop_body window t)) = [(GL_TRIANGLE_STRIP, 0, 4)]"
    by (simp add: loop_body_events frame_events_def draw_calls_def draw_call_def)
  have covered: "list_ex (in_triangle (x, y)) (strip_triangles [(1, 1), (-1, 1), (1, -1), (-1, -1)])"
    if "-1 \<le> x" "x \<le> 1" "-1 \<le> y" "y \<le> 1" for x y :: real
  proof (cases "0 \<le> x + y")
    case True
    with that have "in_triangle (x, y) ((1, 1), (-1, 1), (1, -1))"
      by (simp add: in_triangle_def edge_side_def)
    then show ?thesis by simp
  next
    case False
    with that have "in_triangle (x, y) ((-1, 1), (1, -1), (-1, -1))"
      by (simp add: in_triangle_def edge_side_def)
    then show ?thesis by simp
  qed
  have all_covered: "\<forall>x y. -1 \<le> x \<and> x \<le> 1 \<and> -1 \<le> y \<and> y \<le> 1 \<longrightarrow>
      list_ex (in_triangle (x, y)) (strip_triangles [(1, 1), (-1, 1), (1, -1), (-1, -1)])"
    using covered by blast
  have corners: "set [(1, 1), (-1, 1), (1, -1), (-1, -1)] = {-1, 1 :: real} \<times> {-1, 1 :: real}"
    by auto
  have sizes: "8 * sizeof_GLfloat = 32"
    by (simp add: sizeof_GLfloat_def)
  have four: "length [(1, 1), (-1, 1), (1, -1), (-1 :: real, -1 :: real)] = 4"
    by simp
  show ?thesis
    unfolding vertices sizes four
    using uploads pointers draws corners all_covered by (intro conjI) simp_all
qed

theorem quad_covers_the_viewport_witness:
  "(-1 :: real) \<le> 1 / 2 \<and> (1 / 2 :: real) \<le> 1 \<and> (-1 :: real) \<le> - 1 / 4 \<and> (- 1 / 4 :: real) \<le> 1 \<and>
   list_ex (in_triangle (1 / 2, - 1 / 4))
     (strip_triangles (position_vertices (InitializeGeometry env_ok 3 []))) \<and>
   position_vertices (InitializeGeometry env_ok 3 []) = [(1, 1), (-1, 1), (1, -1), (-1, -1)] \<and>
   draw_calls (loop_body 1 []) = [(GL_TRIANGLE_STRIP, 0, length (position_vertices (InitializeGeometry env_ok 3 [])))]"
proof -
  have inside: "(-1 :: real) \<le> 1 / 2 \<and> (1 / 2 :: real) \<le> 1 \<and> (-1 :: real) \<le> - 1 / 4 \<and> (- 1 / 4 :: real) \<le> 1"
    by simp
  note inst = quad_covers_the_viewport [of "[]" env_ok 3 "[]" 1, unfolded list.size drop_0]
  from inst have vertices:
    "position_vertices (InitializeGeometry env_ok 3 []) = [(1, 1), (-1, 1), (1, -1), (-1, -1)]"
    by (elim conjE)
  from inst have draws:
    "draw_calls (loop_body 1 []) = [(GL_TRIANGLE_STRIP, 0, length (position_vertices (InitializeGeometry env_ok 3 [])))]"
    by (elim conjE)
  from inst have "\<forall>x y. -1 \<le> x \<and> x \<le> 1 \<and> -1 \<le> y \<and> y \<le> 1 \<longrightarrow>
      list_ex (in_triangle (x, y))
        (strip_triangles (position_vertices (InitializeGeometry env_ok 3 [])))"
    by (elim conjE)
  then have "-1 \<le> (1 / 2 :: real) \<and> (1 / 2 :: real) \<le> 1 \<and> -1 \<le> (- 1 / 4 :: real) \<and> (- 1 / 4 :: real) \<le> 1 \<longrightarrow>
      list_ex (in_triangle (1 / 2, - 1 / 4))
        (strip_triangles (position_vertices (InitializeGeometry env_ok 3 [])))"
    by (elim allE)
  from this inside have covered: "list_ex (in_triangle (1 / 2, - 1 / 4))
        (strip_triangles (position_vertices (InitializeGeometry env_ok 3 [])))"
    by (rule mp)
  from inside covered vertices draws show ?thesis
    by (intro conjI) (elim conjE, assumption)+
qed

text \<open>
  Claim C6, as amended. A shader file that cannot be opened is not detected:
  \<open>ShaderProgram\<close> makes the calls it makes for an empty file, and where the other file does
  not fail on reading it returns, and the source it hands to the driver for that stage is the
  empty string. An image file that cannot be opened is not detected either: \<open>LoadImage\<close>
  makes the calls it makes for an empty file, prints nothing, and, for a size
  \<open>width \<times> height \<times> 3\<close> below \<open>2 ^ 32\<close>, uploads a buffer of that size in which every byte is
  zero.
\<close>

theorem missing_files_change_no_control_flow:
  "(fs vf = None \<longrightarrow>
      ShaderProgram gl fs vf ff t0 = ShaderProgram gl (fs(vf \<mapsto> Readable [])) vf ff t0 \<and>
      (\<not> read_error fs ff \<longrightarrow>
         (\<exists>program_id t vid fid code.
            ShaderProgram gl fs vf ff t0 = Inr (program_id, t) \<and>
            shader_sources (drop (length t0) t) = [(vid, []), (fid, code)]))) \<and>
   (fs ff = None \<longrightarrow>
      ShaderProgram gl fs vf ff t0 = ShaderProgram gl (fs(ff \<mapsto> Readable [])) vf ff t0 \<and>
      (\<not> read_error fs vf \<longrightarrow>
         (\<exists>program_id t vid fid code.
            ShaderProgram gl fs vf ff t0 = Inr (program_id, t) \<and>
            shader_sources (drop (length t0) t) = [(vid, code), (fid, [])]))) \<and>
   (fs image_file = None \<longrightarrow>
      LoadImage gl fs image_file width height t0 =
        LoadImage gl (fs(image_file \<mapsto> Readable [])) image_file width height t0 \<and>
      diagnostics (drop (length t0) (snd (LoadImage gl fs image_file width height t0))) = [] \<and>
      (unat width * unat height * 3 < 2 ^ 32 \<longrightarrow>
         texture_uploads (drop (length t0) (snd (LoadImage gl fs image_file width height t0))) =
           [replicate (unat width * unat height * 3) (CHR 0x00)]))"
proof (intro conjI impI)
  have sources: "\<exists>program_id t vid fid.
      ShaderProgram gl fs vf ff t0 = Inr (program_id, t) \<and>
      shader_sources (drop (length t0) t) = [(vid, c_str vertex_code), (fid, c_str fragment_code)]"
    if vertex: "istreambuf_string (fs vf) = Inr vertex_code"
      and fragment: "istreambuf_string (fs ff) = Inr fragment_code"
    for vertex_code fragment_code
  proof -
    from vertex fragment have "\<not> read_error fs vf \<and> \<not> read_error fs ff"
      by (auto simp add: read_error_def istreambuf_string_def)
    then have "\<exists>program_id t. ShaderProgram gl fs vf ff t0 = Inr (program_id, t)"
      by (simp add: ShaderProgram_returns)
    then obtain program_id t where returned: "ShaderProgram gl fs vf ff t0 = Inr (program_id, t)"
      by (elim exE)
    then have "\<exists>vid fid vertex_code fragment_code.
     istreambuf_string (fs vf) = Inr vertex_code \<and>
     istreambuf_string (fs ff) = Inr fragment_code \<and>
     shaders_created (drop (length t0) t) = [vid, fid] \<and>
     shaders_deleted (drop (length t0) t) = [vid, fid] \<and>
     programs_created (drop (length t0) t) = [program_id] \<and>
     shader_sources (drop (length t0) t) = [(vid, c_str vertex_code), (fid, c_str fragment_code)] \<and>
     (\<exists>before. t = before @ [Shader (E_glDeleteShader vid), Shader (E_glDeleteShader fid)])"
      by (rule ShaderProgram_readings)
    then obtain vid fid vc fc where delivered: "istreambuf_string (fs vf) = Inr vc"
      "istreambuf_string (fs ff) = Inr fc"
      and handed: "shader_sources (drop (length t0) t) = [(vid, c_str vc), (fid, c_str fc)]"
      by blast
    from delivered vertex fragment have "vc = vertex_code" "fc = fragment_code"
      by simp_all
    with handed have
      "shader_sources (drop (length t0) t) = [(vid, c_str vertex_code), (fid, c_str fragment_code)]"
      by simp
    with returned show ?thesis
      by (intro exI conjI)
  qed
  have empty: "c_str [] = []"
    by (simp add: c_str_def)
  {
    assume missing: "fs vf = None"
    show "ShaderProgram gl fs vf ff t0 = ShaderProgram gl (fs(vf \<mapsto> Readable [])) vf ff t0"
      by (rule ShaderProgram_same_code) (simp_all add: missing istreambuf_string_def)
    assume "\<not> read_error fs ff"
    then obtain code where fragment: "istreambuf_string (fs ff) = Inr code"
      unfolding read_error_def istreambuf_string_cases(2) [symmetric] by (elim exE)
    from missing have vertex: "istreambuf_string (fs vf) = Inr []"
      by (simp add: istreambuf_string_def)
    from sources [OF vertex fragment, unfolded empty]
    show "\<exists>program_id t vid fid code.
            ShaderProgram gl fs vf ff t0 = Inr (program_id, t) \<and>
            shader_sources (drop (length t0) t) = [(vid, []), (fid, code)]"
      by blast
  }
  {
    assume missing: "fs ff = None"
    show "ShaderProgram gl fs vf ff t0 = ShaderProgram gl (fs(ff \<mapsto> Readable [])) vf ff t0"
      by (rule ShaderProgram_same_code) (simp_all add: missing istreambuf_string_def)
    assume "\<not> read_error fs vf"
    then obtain code where vertex: "istreambuf_string (fs vf) = Inr code"
      unfolding read_error_def istreambuf_string_cases(2) [symmetric] by (elim exE)
    from missing have fragment: "istreambuf_string (fs ff) = Inr []"
      by (simp add: istreambuf_string_def)
    from sources [OF vertex fragment, unfolded empty]
    show "\<exists>program_id t vid fid code.
            ShaderProgram gl fs vf ff t0 = Inr (program_id, t) \<and>
            shader_sources (drop (length t0) t) = [(vid, code), (fid, [])]"
      by blast
  }
  {
    assume missing: "fs image_file = None"
    then show "LoadImage gl fs image_file width height t0 =
        LoadImage gl (fs(image_file \<mapsto> Readable [])) image_file width height t0"
      by (simp add: LoadImage_events extracted_def)
    show "diagnostics (drop (length t0) (snd (LoadImage gl fs image_file width height t0))) = []"
      by (simp add: LoadImage_events readings_Cons reading_defs)
    assume "unat width * unat height * 3 < 2 ^ 32"
    then have exact: "unat (width * height * 3) = unat width * unat height * 3"
      by (simp only: unat_size_product mod_less)
    from missing
    show "texture_uploads (drop (length t0) (snd (LoadImage gl fs image_file width height t0))) =
        [replicate (unat width * unat height * 3) (CHR 0x00)]"
      unfolding exact [symmetric]
      by (simp add: LoadImage_events extracted_def readings_Cons reading_defs)
  }
qed

theorem missing_files_change_no_control_flow_witness:
  "no_files ''gl_texture.vert'' = None \<and> no_files ''gl_texture.frag'' = None \<and>
   no_files ''lena.rgb'' = None \<and>
   \<not> read_error no_files ''gl_texture.vert'' \<and> \<not> read_error no_files ''gl_texture.frag'' \<and>
   unat (2 :: 32 word) * unat (1 :: 32 word) * 3 < (2 :: nat) ^ 32 \<and>
   ShaderProgram env_ok no_files ''gl_texture.vert'' ''gl_texture.frag'' [] =
     ShaderProgram env_ok (no_files(''gl_texture.vert'' \<mapsto> Readable [])) ''gl_texture.vert'' ''gl_texture.frag'' [] \<and>
   (\<exists>program_id t vid fid code.
      ShaderProgram env_ok no_files ''gl_texture.vert'' ''gl_texture.frag'' [] = Inr (program_id, t) \<and>
      shader_sources t = [(vid, []), (fid, code)]) \<and>
   ShaderProgram env_ok no_files ''gl_texture.vert'' ''gl_texture.frag'' [] =
     ShaderProgram env_ok (no_files(''gl_texture.frag'' \<mapsto> Readable [])) ''gl_texture.vert'' ''gl_texture.frag'' [] \<and>
   (\<exists>program_id t vid fid code.
      ShaderProgram env_ok no_files ''gl_texture.vert'' ''gl_texture.frag'' [] = Inr (program_id, t) \<and>
      shader_sources t = [(vid, code), (fid, [])]) \<and>
   LoadImage env_ok no_files ''lena.rgb'' 2 1 [] =
     LoadImage env_ok (no_files(''lena.rgb'' \<mapsto> Readable [])) ''lena.rgb'' 2 1 [] \<and>
   diagnostics (snd (LoadImage env_ok no_files ''lena.rgb'' 2 1 [])) = [] \<and>
   texture_uploads (snd (LoadImage env_ok no_files ''lena.rgb'' 2 1 [])) =
     [[CHR 0x00, CHR 0x00, CHR 0x00, CHR 0x00, CHR 0x00, CHR 0x00]]"
proof -
  have missing: "no_files ''gl_texture.vert'' = None" "no_files ''gl_texture.frag'' = None"
    "no_files ''lena.rgb'' = None"
    by (simp_all add: no_files_def)
  have readable: "\<not> read_error no_files ''gl_texture.vert''" "\<not> read_error no_files ''gl_texture.frag''"
    by (simp_all add: read_error_def no_files_def)
  have small: "unat (2 :: 32 word) * unat (1 :: 32 word) * 3 < (2 :: nat) ^ 32"
    by simp
  have zeros: "replicate 6 (CHR 0x00) = [CHR 0x00, CHR 0x00, CHR 0x00, CHR 0x00, CHR 0x00, CHR 0x00]"
    by code_simp
  have size: "unat (2 :: 32 word) * unat (1 :: 32 word) * 3 = 6"
    by simp
  let ?same_vertex = "ShaderProgram env_ok no_files ''gl_texture.vert'' ''gl_texture.frag'' [] =
     ShaderProgram env_ok (no_files(''gl_texture.vert'' \<mapsto> Readable [])) ''gl_texture.vert'' ''gl_texture.frag'' []"
  let ?empty_vertex = "\<exists>program_id t vid fid code.
      ShaderProgram env_ok no_files ''gl_texture.vert'' ''gl_texture.frag'' [] = Inr (program_id, t) \<and>
      shader_sources t = [(vid, []), (fid, code)]"
  let ?same_fragment = "ShaderProgram env_ok no_files ''gl_texture.vert'' ''gl_texture.frag'' [] =
     ShaderProgram env_ok (no_files(''gl_texture.frag'' \<mapsto> Readable [])) ''gl_texture.vert'' ''gl_texture.frag'' []"
  let ?empty_fragment = "\<exists>program_id t vid fid code.
      ShaderProgram env_ok no_files ''gl_texture.vert'' ''gl_texture.frag'' [] = Inr (program_id, t) \<and>
      shader_sources t = [(vid, code), (fid, [])]"
  let ?same_image = "LoadImage env_ok no_files ''lena.rgb'' 2 1 [] =
     LoadImage env_ok (no_files(''lena.rgb'' \<mapsto> Readable [])) ''lena.rgb'' 2 1 []"
  let ?quiet = "diagnostics (snd (LoadImage env_ok no_files ''lena.rgb'' 2 1 [])) = []"
  let ?zero = "texture_uploads (snd (LoadImage env_ok no_files ''lena.rgb'' 2 1 [])) =
      [replicate (unat (2 :: 32 word) * unat (1 :: 32 word) * 3) (CHR 0x00)]"
  let ?small = "unat (2 :: 32 word) * unat (1 :: 32 word) * 3 < (2 :: nat) ^ 32"
  note inst = missing_files_change_no_control_flow
      [of no_files "''gl_texture.vert''" env_ok "''gl_texture.frag''" "[]" "''lena.rgb''" 2 1,
       unfolded list.size drop_0]
  from inst have
    vertex: "no_files ''gl_texture.vert'' = None \<longrightarrow>
      ?same_vertex \<and> (\<not> read_error no_files ''gl_texture.frag'' \<longrightarrow> ?empty_vertex)"
    by (elim conjE)
  from inst have
    fragment: "no_files ''gl_texture.frag'' = None \<longrightarrow>
      ?same_fragment \<and> (\<not> read_error no_files ''gl_texture.vert'' \<longrightarrow> ?empty_fragment)"
    by (elim conjE)
  from inst have
    image: "no_files ''lena.rgb'' = None \<longrightarrow> ?same_image \<and> ?quiet \<and> (?small \<longrightarrow> ?zero)"
    by (elim conjE)
  from vertex missing(1) have "?same_vertex \<and> (\<not> read_error no_files ''gl_texture.frag'' \<longrightarrow> ?empty_vertex)"
    by (rule mp)
  then have a: ?same_vertex and a': "\<not> read_error no_files ''gl_texture.frag'' \<longrightarrow> ?empty_vertex"
    by (rule conjunct1, rule conjunct2)
  from a' readable(2) have b: ?empty_vertex
    by (rule mp)
  from fragment missing(2) have "?same_fragment \<and> (\<not> read_error no_files ''gl_texture.vert'' \<longrightarrow> ?empty_fragment)"
    by (rule mp)
  then have c: ?same_fragment and c': "\<not> read_error no_files ''gl_texture.vert'' \<longrightarrow> ?empty_fragment"
    by (rule conjunct1, rule conjunct2)
  from c' readable(1) have d: ?empty_fragment
    by (rule mp)
  from image missing(3) have "?same_image \<and> ?quiet \<and> (?small \<longrightarrow> ?zero)"
    by (rule mp)
  then have e: ?same_image and rest: "?quiet \<and> (?small \<longrightarrow> ?zero)"
    by (rule conjunct1, rule conjunct2)
  from rest have f: ?quiet and g': "?small \<longrightarrow> ?zero"
    by (rule conjunct1, rule conjunct2)
  from g' small have g: ?zero
    by (rule mp)
  from missing readable small a b c d e f g [unfolded size zeros] show ?thesis
    by (intro conjI)
qed

theorem unreadable_shader_file_counterexample:
  "read_error vertex_is_directory ''gl_texture.vert'' \<and>
   ShaderProgram env_ok vertex_is_directory ''gl_texture.vert'' ''gl_texture.frag'' [] =
     Inl (ios_failure,
       [Shader (E_glCreateShader GL_VERTEX_SHADER 1),
        Shader (E_glCreateShader GL_FRAGMENT_SHADER 2),
        IO (E_ifstream ''gl_texture.vert'' ios_in)]) \<and>
   shader_sources
     [Shader (E_glCreateShader GL_VERTEX_SHADER 1),
      Shader (E_glCreateShader GL_FRAGMENT_SHADER 2),
      IO (E_ifstream ''gl_texture.vert'' ios_in)] = [] \<and>
   main env_ok vertex_is_directory =
     Some (Uncaught ios_failure,
       init_events env_ok 1 @
       [Shader (E_glCreateShader GL_VERTEX_SHADER 1),
        Shader (E_glCreateShader GL_FRAGMENT_SHADER 2),
        IO (E_ifstream ''gl_texture.vert'' ios_in)])"
proof -
  have unreadable: "read_error vertex_is_directory ''gl_texture.vert''"
    by (simp add: read_error_def vertex_is_directory_def)
  then have thrown: "istreambuf_string (vertex_is_directory ''gl_texture.vert'') = Inl ios_failure"
    by (simp add: read_error_def istreambuf_string_def)
  have handles: "\<And>n. CreateShader_ret env_ok n GL_VERTEX_SHADER = 1"
    "\<And>n. CreateShader_ret env_ok n GL_FRAGMENT_SHADER = 2"
    by (simp_all add: env_ok_def)
  note left = ShaderProgram_vertex_read_fails
      [of vertex_is_directory "''gl_texture.vert''" ios_failure env_ok "''gl_texture.frag''",
       OF thrown, unfolded handles]
  have a: "ShaderProgram env_ok vertex_is_directory ''gl_texture.vert'' ''gl_texture.frag'' [] =
     Inl (ios_failure,
       [Shader (E_glCreateShader GL_VERTEX_SHADER 1),
        Shader (E_glCreateShader GL_FRAGMENT_SHADER 2),
        IO (E_ifstream ''gl_texture.vert'' ios_in)])"
    using left [of "[]"] by simp
  have b: "shader_sources
     [Shader (E_glCreateShader GL_VERTEX_SHADER 1),
      Shader (E_glCreateShader GL_FRAGMENT_SHADER 2),
      IO (E_ifstream ''gl_texture.vert'' ios_in)] = []"
    by (simp add: readings_Cons reading_defs)
  have init: "glfwInit_ret env_ok 0 \<noteq> 0"
    "glfwCreateWindow_ret env_ok 6 SIZE SIZE ''OpenGL'' = Some 1"
    "glewIsSupported_ret env_ok 10 ''GL_VERSION_3_3'' \<noteq> 0"
    by (simp_all add: env_ok_def)
  from init left [of "init_events env_ok 1"]
  have c: "main env_ok vertex_is_directory =
     Some (Uncaught ios_failure,
       init_events env_ok 1 @
       [Shader (E_glCreateShader GL_VERTEX_SHADER 1),
        Shader (E_glCreateShader GL_FRAGMENT_SHADER 2),
        IO (E_ifstream ''gl_texture.vert'' ios_in)])"
    by (rule main_uncaught)
  from unreadable a b c show ?thesis
    by (intro conjI)
qed

text \<open>
  Claim C7. One pass through the body of the loop makes exactly five calls: it sets the
  clear colour to the gray \<open>(.5, .5, .5, 0)\<close>, clears the colour and the depth buffer, draws
  one triangle strip of four vertices, swaps the buffers of the window and polls the events.
  The loop returns exactly when some query \<open>glfwWindowShouldClose\<close> at the head of an
  iteration answers non-zero: its trace is then the full iterations made while the answer
  was zero, followed by that last query. Where the answer is zero at every iteration the
  loop does not return.
\<close>

theorem render_loop_runs_until_close:
  "loop_body window t =
     t @ [Frame (E_glClearColor 0.5 0.5 0.5 0),
          Frame (E_glClear [GL_COLOR_BUFFER_BIT, GL_DEPTH_BUFFER_BIT]),
          Frame (E_glDrawArrays GL_TRIANGLE_STRIP 0 4),
          Window (E_glfwSwapBuffers window),
          Window E_glfwPollEvents] \<and>
   iterations gl window n (Suc k) =
     Window (E_glfwWindowShouldClose window (glfwWindowShouldClose_ret gl n window)) #
     drop (length t) (loop_body window t) @ iterations gl window (n + 6) k \<and>
   (main_loop gl window t = Some t' \<longleftrightarrow>
      (\<exists>k. (\<forall>j<k. close_answer gl window (length t) j = 0) \<and>
           close_answer gl window (length t) k \<noteq> 0 \<and>
           t' = t @ iterations gl window (length t) k @
                [Window (E_glfwWindowShouldClose window (close_answer gl window (length t) k))])) \<and>
   ((\<forall>k. close_answer gl window (length t) k = 0) \<longrightarrow> main_loop gl window t = None)"
proof (intro conjI impI iffI)
  show "loop_body window t =
     t @ [Frame (E_glClearColor 0.5 0.5 0.5 0),
          Frame (E_glClear [GL_COLOR_BUFFER_BIT, GL_DEPTH_BUFFER_BIT]),
          Frame (E_glDrawArrays GL_TRIANGLE_STRIP 0 4),
          Window (E_glfwSwapBuffers window),
          Window E_glfwPollEvents]"
    by (simp add: loop_body_events frame_events_def)
  show "iterations gl window n (Suc k) =
     Window (E_glfwWindowShouldClose window (glfwWindowShouldClose_ret gl n window)) #
     drop (length t) (loop_body window t) @ iterations gl window (n + 6) k"
    by (simp add: loop_body_events)
next
  assume "main_loop gl window t = Some t'"
  then show "\<exists>k. (\<forall>j<k. close_answer gl window (length t) j = 0) \<and>
           close_answer gl window (length t) k \<noteq> 0 \<and>
           t' = t @ iterations gl window (length t) k @
                [Window (E_glfwWindowShouldClose window (close_answer gl window (length t) k))]"
    by (rule main_loop_only_on_close)
next
  assume "\<exists>k. (\<forall>j<k. close_answer gl window (length t) j = 0) \<and>
           close_answer gl window (length t) k \<noteq> 0 \<and>
           t' = t @ iterations gl window (length t) k @
                [Window (E_glfwWindowShouldClose window (close_answer gl window (length t) k))]"
  then obtain k where before: "\<forall>j<k. close_answer gl window (length t) j = 0"
    and now: "close_answer gl window (length t) k \<noteq> 0"
    and t': "t' = t @ iterations gl window (length t) k @
                [Window (E_glfwWindowShouldClose window (close_answer gl window (length t) k))]"
    by (elim exE conjE)
  from before have "\<And>j. j < k \<Longrightarrow> close_answer gl window (length t) j = 0"
    by simp
  from this now show "main_loop gl window t = Some t'"
    unfolding t' by (rule main_loop_returns)
next
  assume "\<forall>k. close_answer gl window (length t) k = 0"
  then have "\<And>k. close_answer gl window (length t) k = 0"
    by simp
  then show "main_loop gl window t = None"
    by (rule main_loop_never_closed)
qed

theorem render_loop_runs_until_close_witness:
  "close_answer env_two_frames 1 (length ([] :: trace)) 0 = 0 \<and>
   close_answer env_two_frames 1 (length ([] :: trace)) 1 = 0 \<and>
   close_answer env_two_frames 1 (length ([] :: trace)) 2 \<noteq> 0 \<and>
   main_loop env_two_frames 1 [] =
     Some ([] @ iterations env_two_frames 1 (length ([] :: trace)) 2 @
           [Window (E_glfwWindowShouldClose 1 (close_answer env_two_frames 1 (length ([] :: trace)) 2))]) \<and>
   (\<forall>k. close_answer env_never_closed 1 (length ([] :: trace)) k = 0) \<and>
   main_loop env_never_closed 1 [] = None"
proof -
  have first: "close_answer env_two_frames 1 (length ([] :: trace)) 0 = 0"
    by (simp add: close_answer_def env_two_frames_def env_ok_def)
  have second: "close_answer env_two_frames 1 (length ([] :: trace)) 1 = 0"
    by (simp add: close_answer_def env_two_frames_def env_ok_def)
  have before: "\<forall>j<2. close_answer env_two_frames 1 (length ([] :: trace)) j = 0"
  proof (intro allI impI)
    fix j :: nat assume "j < 2"
    then have "j = 0 \<or> j = 1" by auto
    with first second show "close_answer env_two_frames 1 (length ([] :: trace)) j = 0"
      by (elim disjE) simp_all
  qed
  have now: "close_answer env_two_frames 1 (length ([] :: trace)) 2 \<noteq> 0"
    by (simp add: close_answer_def env_two_frames_def env_ok_def)
  have never: "\<forall>k. close_answer env_never_closed 1 (length ([] :: trace)) k = 0"
    by (simp add: close_answer_def env_never_closed_def env_ok_def)
  note closing = render_loop_runs_until_close [of 1 "[]" env_two_frames 0 0
      "[] @ iterations env_two_frames 1 (length ([] :: trace)) 2 @
           [Window (E_glfwWindowShouldClose 1 (close_answer env_two_frames 1 (length ([] :: trace)) 2))]"]
  note running = render_loop_runs_until_close [of 1 "[]" env_never_closed 0 0 "[]"]
  from closing before now have returns: "main_loop env_two_frames 1 [] =
     Some ([] @ iterations env_two_frames 1 (length ([] :: trace)) 2 @
           [Window (E_glfwWindowShouldClose 1 (close_answer env_two_frames 1 (length ([] :: trace)) 2))])"
    by blast
  from running never have forever: "main_loop env_never_closed 1 [] = None"
    by blast
  from first second now returns never forever show ?thesis
    by (intro conjI)
qed

text \<open>
  Claim C8. For every program handle, \<open>InitializeGeometry\<close> looks up the locations of the
  inputs \<open>Position\<close> and \<open>TexCoord\<close> in that program and hands whatever the lookup answers
  to \<open>glVertexAttribPointer\<close> and \<open>glEnableVertexAttribArray\<close> for the buffer bound just
  before. Nothing is checked: the calls are the same for every answer, nothing is printed,
  and for the answer \<open>-1\<close> of a name that is not found the two calls receive the index
  \<open>0xFFFFFFFF\<close>.
\<close>

theorem InitializeGeometry_uses_lookup_unchecked:
  "(\<exists>vao vbo tbo.
     InitializeGeometry gl program_id t0 =
       t0 @ [Geometry (E_glGenVertexArrays 1 vao),
             Geometry (E_glBindVertexArray vao),
             Geometry (E_glGenBuffers 1 vbo),
             Geometry (E_glBindBuffer GL_ARRAY_BUFFER vbo),
             Geometry (E_glBufferData GL_ARRAY_BUFFER 32 [1, 1, -1, 1, 1, -1, -1, -1] GL_STATIC_DRAW),
             Geometry (E_glGetAttribLocation program_id ''Position''
               (GetAttribLocation_ret gl (length t0 + 5) program_id ''Position'')),
             Geometry (E_glVertexAttribPointer
               (GetAttribLocation_ret gl (length t0 + 5) program_id ''Position'') 2 GL_FLOAT GL_FALSE 0 0),
             Geometry (E_glEnableVertexAttribArray
               (GetAttribLocation_ret gl (length t0 + 5) program_id ''Position'')),
             Geometry (E_glGenBuffers 1 tbo),
             Geometry (E_glBindBuffer GL_ARRAY_BUFFER tbo),
             Geometry (E_glBufferData GL_ARRAY_BUFFER 32 [1, 0, 0, 0, 1, 1, 0, 1] GL_STATIC_DRAW),
             Geometry (E_glGetAttribLocation program_id ''TexCoord''
               (GetAttribLocation_ret gl (length t0 + 11) program_id ''TexCoord'')),
             Geometry (E_glVertexAttribPointer
               (GetAttribLocation_ret gl (length t0 + 11) program_id ''TexCoord'') 2 GL_FLOAT GL_FALSE 0 0),
             Geometry (E_glEnableVertexAttribArray
               (GetAttribLocation_ret gl (length t0 + 11) program_id ''TexCoord''))]) \<and>
   diagnostics (drop (length t0) (InitializeGeometry gl program_id t0)) = [] \<and>
   (GetAttribLocation_ret gl (length t0 + 5) program_id ''Position'' = - 1 \<and>
    GetAttribLocation_ret gl (length t0 + 11) program_id ''TexCoord'' = - 1 \<longrightarrow>
      attrib_pointers (drop (length t0) (InitializeGeometry gl program_id t0)) =
        [(0xFFFFFFFF, 2), (0xFFFFFFFF, 2)] \<and>
      length (InitializeGeometry gl program_id t0) = length t0 + 14)"
proof (intro conjI impI)
  show "\<exists>vao vbo tbo.
     InitializeGeometry gl program_id t0 =
       t0 @ [Geometry (E_glGenVertexArrays 1 vao),
             Geometry (E_glBindVertexArray vao),
             Geometry (E_glGenBuffers 1 vbo),
             Geometry (E_glBindBuffer GL_ARRAY_BUFFER vbo),
             Geometry (E_glBufferData GL_ARRAY_BUFFER 32 [1, 1, -1, 1, 1, -1, -1, -1] GL_STATIC_DRAW),
             Geometry (E_glGetAttribLocation program_id ''Position''
               (GetAttribLocation_ret gl (length t0 + 5) program_id ''Position'')),
             Geometry (E_glVertexAttribPointer
               (GetAttribLocation_ret gl (length t0 + 5) program_id ''Position'') 2 GL_FLOAT GL_FALSE 0 0),
             Geometry (E_glEnableVertexAttribArray
               (GetAttribLocation_ret gl (length t0 + 5) program_id ''Position'')),
             Geometry (E_glGenBuffers 1 tbo),
             Geometry (E_glBindBuffer GL_ARRAY_BUFFER tbo),
             Geometry (E_glBufferData GL_ARRAY_BUFFER 32 [1, 0, 0, 0, 1, 1, 0, 1] GL_STATIC_DRAW),
             Geometry (E_glGetAttribLocation program_id ''TexCoord''
               (GetAttribLocation_ret gl (length t0 + 11) program_id ''TexCoord'')),
             Geometry (E_glVertexAttribPointer
               (GetAttribLocation_ret gl (length t0 + 11) program_id ''TexCoord'') 2 GL_FLOAT GL_FALSE 0 0),
             Geometry (E_glEnableVertexAttribArray
               (GetAttribLocation_ret gl (length t0 + 11) program_id ''TexCoord''))]"
    by (intro exI) (rule InitializeGeometry_events)
  show "diagnostics (drop (length t0) (InitializeGeometry gl program_id t0)) = []"
    by (simp add: InitializeGeometry_events diagnostics_def diagnostic_def)
  assume "GetAttribLocation_ret gl (length t0 + 5) program_id ''Position'' = - 1 \<and>
    GetAttribLocation_ret gl (length t0 + 11) program_id ''TexCoord'' = - 1"
  then show "attrib_pointers (drop (length t0) (InitializeGeometry gl program_id t0)) =
        [(0xFFFFFFFF, 2), (0xFFFFFFFF, 2)]"
    by (simp add: InitializeGeometry_events attrib_pointers_def attrib_pointer_def)
  show "length (InitializeGeometry gl program_id t0) = length t0 + 14"
    by (simp add: InitializeGeometry_events)
qed

theorem InitializeGeometry_uses_lookup_unchecked_witness:
  "GetAttribLocation_ret env_no_attributes (length ([] :: trace) + 5) 3 ''Position'' = - 1 \<and>
   GetAttribLocation_ret env_no_attributes (length ([] :: trace) + 11) 3 ''TexCoord'' = - 1 \<and>
   attrib_pointers (InitializeGeometry env_no_attributes 3 []) = [(0xFFFFFFFF, 2), (0xFFFFFFFF, 2)] \<and>
   length (InitializeGeometry env_no_attributes 3 []) = 14 \<and>
   diagnostics (InitializeGeometry env_no_attributes 3 []) = []"
proof -
  have miss: "GetAttribLocation_ret env_no_attributes (length ([] :: trace) + 5) 3 ''Position'' = - 1 \<and>
      GetAttribLocation_ret env_no_attributes (length ([] :: trace) + 11) 3 ''TexCoord'' = - 1"
    by (simp add: env_no_attributes_def env_ok_def)
  note inst = InitializeGeometry_uses_lookup_unchecked [of env_no_attributes 3 "[]"]
  from inst have silent: "diagnostics (drop (length ([] :: trace)) (InitializeGeometry env_no_attributes 3 [])) = []"
    by (elim conjE)
  from inst miss have used:
    "attrib_pointers (drop (length ([] :: trace)) (InitializeGeometry env_no_attributes 3 [])) =
        [(0xFFFFFFFF, 2), (0xFFFFFFFF, 2)] \<and>
     length (InitializeGeometry env_no_attributes 3 []) = length ([] :: trace) + 14"
    by blast
  from miss silent used show ?thesis
    by simp
qed

text \<open>
  Claim C9, as amended. The pixel buffer of \<open>LoadImage\<close> is all zero bytes before the read.
  So for every width and height whose product \<open>width \<times> height \<times> 3\<close> is below \<open>2 ^ 32\<close>, what
  is uploaded is the bytes the read stored followed by zero bytes up to
  \<open>width \<times> height \<times> 3\<close>: for a file shorter than that the whole file and then zeros, for a
  file that cannot be opened (which stores no byte) zeros only.
\<close>

theorem LoadImage_tail_is_zero:
  "unat width * unat height * 3 < 2 ^ 32 \<longrightarrow>
     texture_uploads (drop (length t0) (snd (LoadImage gl fs image_file width height t0))) =
       [extracted (fs image_file) (unat width * unat height * 3) @
        replicate (unat width * unat height * 3 -
                   length (extracted (fs image_file) (unat width * unat height * 3))) (CHR 0x00)] \<and>
     (\<forall>bytes. fs image_file = Some (Readable bytes) \<and> length bytes < unat width * unat height * 3 \<longrightarrow>
        texture_uploads (drop (length t0) (snd (LoadImage gl fs image_file width height t0))) =
          [bytes @ replicate (unat width * unat height * 3 - length bytes) (CHR 0x00)]) \<and>
     (fs image_file = None \<longrightarrow>
        texture_uploads (drop (length t0) (snd (LoadImage gl fs image_file width height t0))) =
          [replicate (unat width * unat height * 3) (CHR 0x00)])"
proof
  assume "unat width * unat height * 3 < 2 ^ 32"
  then have exact: "unat (width * height * 3) = unat width * unat height * 3"
    by (simp only: unat_size_product mod_less)
  show "texture_uploads (drop (length t0) (snd (LoadImage gl fs image_file width height t0))) =
       [extracted (fs image_file) (unat width * unat height * 3) @
        replicate (unat width * unat height * 3 -
                   length (extracted (fs image_file) (unat width * unat height * 3))) (CHR 0x00)] \<and>
     (\<forall>bytes. fs image_file = Some (Readable bytes) \<and> length bytes < unat width * unat height * 3 \<longrightarrow>
        texture_uploads (drop (length t0) (snd (LoadImage gl fs image_file width height t0))) =
          [bytes @ replicate (unat width * unat height * 3 - length bytes) (CHR 0x00)]) \<and>
     (fs image_file = None \<longrightarrow>
        texture_uploads (drop (length t0) (snd (LoadImage gl fs image_file width height t0))) =
          [replicate (unat width * unat height * 3) (CHR 0x00)])"
    unfolding exact [symmetric]
    by (simp add: LoadImage_events readings_Cons reading_defs extracted_def)
qed

theorem LoadImage_tail_is_zero_witness:
  "unat (2 :: 32 word) * unat (1 :: 32 word) * 3 < (2 :: nat) ^ 32 \<and>
   short_image ''lena.rgb'' = Some (Readable ''abc'') \<and>
   length ''abc'' < unat (2 :: 32 word) * unat (1 :: 32 word) * 3 \<and>
   texture_uploads (snd (LoadImage env_ok short_image ''lena.rgb'' 2 1 [])) =
     [''abc'' @ [CHR 0x00, CHR 0x00, CHR 0x00]] \<and>
   no_files ''lena.rgb'' = None \<and>
   texture_uploads (snd (LoadImage env_ok no_files ''lena.rgb'' 2 1 [])) =
     [[CHR 0x00, CHR 0x00, CHR 0x00, CHR 0x00, CHR 0x00, CHR 0x00]]"
proof -
  have small: "unat (2 :: 32 word) * unat (1 :: 32 word) * 3 < (2 :: nat) ^ 32"
    by simp
  have present: "short_image ''lena.rgb'' = Some (Readable ''abc'')"
    by (simp add: short_image_def)
  have missing: "no_files ''lena.rgb'' = None"
    by (simp add: no_files_def)
  have size: "unat (2 :: 32 word) * unat (1 :: 32 word) * 3 = 6"
    by simp
  have short: "length ''abc'' < (6 :: nat)"
    by simp
  have zeros3: "replicate (6 - length ''abc'') (CHR 0x00) = [CHR 0x00, CHR 0x00, CHR 0x00]"
    by code_simp
  have zeros6: "replicate 6 (CHR 0x00) = [CHR 0x00, CHR 0x00, CHR 0x00, CHR 0x00, CHR 0x00, CHR 0x00]"
    by code_simp
  note some = LoadImage_tail_is_zero [of 2 1 "[]" env_ok short_image "''lena.rgb''",
      unfolded list.size drop_0]
  note none = LoadImage_tail_is_zero [of 2 1 "[]" env_ok no_files "''lena.rgb''",
      unfolded list.size drop_0]
  from some small have
    "\<forall>bytes. short_image ''lena.rgb'' = Some (Readable bytes) \<and>
        length bytes < unat (2 :: 32 word) * unat (1 :: 32 word) * 3 \<longrightarrow>
        texture_uploads (snd (LoadImage env_ok short_image ''lena.rgb'' 2 1 [])) =
          [bytes @ replicate (unat (2 :: 32 word) * unat (1 :: 32 word) * 3 - length bytes) (CHR 0x00)]"
    by blast
  with present short have padded:
    "texture_uploads (snd (LoadImage env_ok short_image ''lena.rgb'' 2 1 [])) =
       [''abc'' @ replicate (6 - length ''abc'') (CHR 0x00)]"
    unfolding size by blast
  from none small missing have black:
    "texture_uploads (snd (LoadImage env_ok no_files ''lena.rgb'' 2 1 [])) = [replicate 6 (CHR 0x00)]"
    unfolding size by blast
  from small present short missing padded black show ?thesis
    unfolding size zeros3 zeros6 by (intro conjI)
qed

theorem LoadImage_tail_counterexample:
  "short_image ''lena.rgb'' = Some (Readable ''abc'') \<and>
   length ''abc'' < unat (1431655766 :: 32 word) * unat (1 :: 32 word) * 3 \<and>
   texture_uploads (snd (LoadImage env_ok short_image ''lena.rgb'' 1431655766 1 [])) = [''ab''] \<and>
   map length (texture_uploads (snd (LoadImage env_ok short_image ''lena.rgb'' 1431655766 1 []))) \<noteq>
     [unat (1431655766 :: 32 word) * unat (1 :: 32 word) * 3]"
  by (simp add: LoadImage_events readings_Cons reading_defs extracted_def short_image_def)

text \<open>
  Claim C10. \<open>ShaderProgram\<close> deletes both intermediate shader objects before it returns,
  on every path on which it returns: whatever the compile and link statuses are, the handles
  it passes to \<open>glDeleteShader\<close> are exactly the two it got from \<open>glCreateShader\<close>, the two
  deletions are its last two calls, and the only other object it creates is the program
  whose handle it returns. It returns exactly when neither shader file fails on reading.
\<close>

theorem ShaderProgram_deletes_both_shaders:
  "(ShaderProgram gl fs vf ff t0 = Inr (program_id, t) \<longrightarrow>
      (\<exists>vid fid.
         shaders_created (drop (length t0) t) = [vid, fid] \<and>
         shaders_deleted (drop (length t0) t) = [vid, fid] \<and>
         programs_created (drop (length t0) t) = [program_id] \<and>
         (\<exists>before. t = before @ [Shader (E_glDeleteShader vid), Shader (E_glDeleteShader fid)]))) \<and>
   ((\<exists>program_id t. ShaderProgram gl fs vf ff t0 = Inr (program_id, t)) \<longleftrightarrow>
      \<not> read_error fs vf \<and> \<not> read_error fs ff)"
proof (intro conjI impI)
  assume "ShaderProgram gl fs vf ff t0 = Inr (program_id, t)"
  then have "\<exists>vid fid vertex_code fragment_code.
     istreambuf_string (fs vf) = Inr vertex_code \<and>
     istreambuf_string (fs ff) = Inr fragment_code \<and>
     shaders_created (drop (length t0) t) = [vid, fid] \<and>
     shaders_deleted (drop (length t0) t) = [vid, fid] \<and>
     programs_created (drop (length t0) t) = [program_id] \<and>
     shader_sources (drop (length t0) t) = [(vid, c_str vertex_code), (fid, c_str fragment_code)] \<and>
     (\<exists>before. t = before @ [Shader (E_glDeleteShader vid), Shader (E_glDeleteShader fid)])"
    by (rule ShaderProgram_readings)
  then obtain vid fid where
    "shaders_created (drop (length t0) t) = [vid, fid]"
    "shaders_deleted (drop (length t0) t) = [vid, fid]"
    "programs_created (drop (length t0) t) = [program_id]"
    "\<exists>before. t = before @ [Shader (E_glDeleteShader vid), Shader (E_glDeleteShader fid)]"
    by blast
  then show "\<exists>vid fid.
         shaders_created (drop (length t0) t) = [vid, fid] \<and>
         shaders_deleted (drop (length t0) t) = [vid, fid] \<and>
         programs_created (drop (length t0) t) = [program_id] \<and>
         (\<exists>before. t = before @ [Shader (E_glDeleteShader vid), Shader (E_glDeleteShader fid)])"
    by (intro exI [of _ vid] exI [of _ fid] conjI)
next
  show "(\<exists>program_id t. ShaderProgram gl fs vf ff t0 = Inr (program_id, t)) \<longleftrightarrow>
      \<not> read_error fs vf \<and> \<not> read_error fs ff"
    by (rule ShaderProgram_returns)
qed

theorem ShaderProgram_deletes_both_shaders_witness:
  "\<not> read_error no_files ''gl_texture.vert'' \<and> \<not> read_error no_files ''gl_texture.frag'' \<and>
   (\<exists>program_id t vid fid.
      ShaderProgram env_bad_shaders no_files ''gl_texture.vert'' ''gl_texture.frag'' [] =
        Inr (program_id, t) \<and>
      shaders_created t = [vid, fid] \<and>
      shaders_deleted t = [vid, fid] \<and>
      programs_created t = [program_id])"
proof -
  have readable: "\<not> read_error no_files ''gl_texture.vert''" "\<not> read_error no_files ''gl_texture.frag''"
    by (simp_all add: read_error_def no_files_def)
  note inst = ShaderProgram_deletes_both_shaders
    [of env_bad_shaders no_files "''gl_texture.vert''" "''gl_texture.frag''" "[]", unfolded list.size drop_0]
  from readable inst obtain program_id t where returned:
    "ShaderProgram env_bad_shaders no_files ''gl_texture.vert'' ''gl_texture.frag'' [] =
       Inr (program_id, t)"
    by blast
  with inst [of program_id t] obtain vid fid where
    "shaders_created t = [vid, fid]" "shaders_deleted t = [vid, fid]"
    "programs_created t = [program_id]"
    by blast
  with returned have "\<exists>program_id t vid fid.
      ShaderProgram env_bad_shaders no_files ''gl_texture.vert'' ''gl_texture.frag'' [] =
        Inr (program_id, t) \<and>
      shaders_created t = [vid, fid] \<and>
      shaders_deleted t = [vid, fid] \<and>
      programs_created t = [program_id]"
    by (intro exI conjI)
  with readable show ?thesis
    by (intro conjI)
qed

end
